theory Spec2Isabelle
  imports Complex_Main
begin

section \<open>JavaScript strings\<close>

text \<open>
  A query is a JavaScript string. It is modelled as a \<^typ>\<open>string\<close> whose characters are
  the code units of the JavaScript string; the model covers the code units below 256
  (Latin-1). On these, \<open>toLowerCase\<close> maps \<open>A-Z\<close> and \<open>U+00C0-U+00DE\<close> (without the
  multiplication sign \<open>U+00D7\<close>) to the character 32 places further, and the white space of
  \<open>\s\<close> and of \<open>trim\<close> is tab, line feed, vertical tab, form feed, carriage return, space
  and the no-break space. \<open>toUpperCase\<close> is the inverse map; the source applies it to
  letters of \<open>a-z\<close> and to the first character of a message, and the three Latin-1 letters
  whose capital is not a single Latin-1 character (\<open>U+00B5\<close>, \<open>U+00DF\<close>, \<open>U+00FF\<close>) stay as
  they are here. Under the \<open>i\<close> flag a letter of \<open>A-Z\<close> or \<open>a-z\<close> in a pattern matches its two
  cases and nothing else.
\<close>

definition code_unit :: "char \<Rightarrow> nat" where
  "code_unit c = of_char c"

definition is_digit :: "char \<Rightarrow> bool" where
  "is_digit c = (48 \<le> code_unit c \<and> code_unit c \<le> 57)"

definition is_upper :: "char \<Rightarrow> bool" where
  "is_upper c = (65 \<le> code_unit c \<and> code_unit c \<le> 90)"

definition is_lower :: "char \<Rightarrow> bool" where
  "is_lower c = (97 \<le> code_unit c \<and> code_unit c \<le> 122)"

definition is_letter :: "char \<Rightarrow> bool" where
  "is_letter c = (is_upper c \<or> is_lower c)"

definition is_word :: "char \<Rightarrow> bool" where
  "is_word c = (is_letter c \<or> is_digit c \<or> c = CHR ''_'')"

definition is_space :: "char \<Rightarrow> bool" where
  "is_space c = ((9 \<le> code_unit c \<and> code_unit c \<le> 13) \<or> code_unit c = 32 \<or> code_unit c = 160)"

definition is_line_end :: "char \<Rightarrow> bool" where
  "is_line_end c = (code_unit c = 10 \<or> code_unit c = 13)"

definition lower_char :: "char \<Rightarrow> char" where
  "lower_char c =
     (if is_upper c \<or> (192 \<le> code_unit c \<and> code_unit c \<le> 222 \<and> code_unit c \<noteq> 215)
      then char_of (code_unit c + 32) else c)"

definition upper_char :: "char \<Rightarrow> char" where
  "upper_char c =
     (if is_lower c \<or> (224 \<le> code_unit c \<and> code_unit c \<le> 254 \<and> code_unit c \<noteq> 247)
      then char_of (code_unit c - 32) else c)"

definition toLowerCase :: "string \<Rightarrow> string" where
  "toLowerCase s = map lower_char s"

definition toUpperCase :: "string \<Rightarrow> string" where
  "toUpperCase s = map upper_char s"

definition trim :: "string \<Rightarrow> string" where
  "trim s = rev (dropWhile is_space (rev (dropWhile is_space s)))"

definition startsWith :: "string \<Rightarrow> string \<Rightarrow> bool" where
  "startsWith s p = (take (length p) s = p)"

fun str_includes :: "string \<Rightarrow> string \<Rightarrow> bool" where
  "str_includes [] sub = (sub = [])"
| "str_includes (c # cs) sub = (startsWith (c # cs) sub \<or> str_includes cs sub)"

text \<open>\<open>s.split(' ')\<close>: the pieces between single spaces; the empty string gives one empty piece.\<close>

fun split_on :: "char \<Rightarrow> string \<Rightarrow> string list" where
  "split_on d [] = [[]]"
| "split_on d (c # cs) =
     (if c = d then [] # split_on d cs
      else (case split_on d cs of [] \<Rightarrow> [[c]] | w # ws \<Rightarrow> (c # w) # ws))"

definition split_space :: "string \<Rightarrow> string list" where
  "split_space s = split_on CHR '' '' s"

text \<open>\<open>parts.join(sep)\<close>, and \<open>parts.join(' ')\<close>.\<close>

fun join_with :: "string \<Rightarrow> string list \<Rightarrow> string" where
  "join_with sep [] = []"
| "join_with sep [w] = w"
| "join_with sep (w # ws) = w @ sep @ join_with sep ws"

definition join_space :: "string list \<Rightarrow> string" where
  "join_space ws = join_with '' '' ws"

text \<open>
  \<open>parseInt\<close> on a capture of \<open>(\d+)\<close>: the decimal value of the leading digits, and
  \<open>NaN\<close> (here \<open>None\<close>) when there is none. This is the mathematical value that \<open>parseInt\<close>
  reads; the JavaScript number it returns is this value rounded to a double, by
  \<open>to_number\<close> below. The rounding is the identity below \<open>2^53\<close>. It is applied to the salary
  amount and to the score threshold, which the source computes with or hands to the
  store; the requested count and the years of experience, which the source only compares
  with other numbers, are kept as they are read.
\<close>

definition digit_value :: "char \<Rightarrow> int" where
  "digit_value c = int (code_unit c) - 48"

definition digits_value :: "string \<Rightarrow> int" where
  "digits_value ds = foldl (\<lambda>n c. 10 * n + digit_value c) 0 ds"

definition parseInt :: "string \<Rightarrow> int option" where
  "parseInt s = (let ds = takeWhile is_digit s in if ds = [] then None else Some (digits_value ds))"

section \<open>JavaScript numbers\<close>

text \<open>
  A JavaScript number whose value is whole: an IEEE double that holds a whole number,
  \<open>Infinity\<close>, \<open>-Infinity\<close> or \<open>NaN\<close>. A double has 53 significant bits. A whole number of more
  bits is rounded to the nearest double, to the one with an even last bit when two are
  equally near, and to \<open>Infinity\<close> when the rounded value reaches \<open>2^1024\<close>.
  \<open>excess_bits n\<close> is the number of bits of \<open>n\<close> beyond 53. For a text of more than 20
  significant digits \<open>parseInt\<close> may, at the option of the implementation, read the digits
  after the 20th as zeros; here it reads them as they are.
\<close>

datatype whole_number = Whole int | Pos_infinite | Neg_infinite | Not_a_number

function excess_bits :: "int \<Rightarrow> nat" where
  "excess_bits n = (if n < 2 ^ 53 then 0 else Suc (excess_bits (n div 2)))"
  by pat_completeness auto
termination
  by (relation "measure nat") auto

definition round_magnitude :: "int \<Rightarrow> int option" where
  "round_magnitude n =
     (let e = excess_bits n; q = n div 2 ^ e; r = n mod 2 ^ e;
          up = (2 * r > 2 ^ e \<or> (2 * r = 2 ^ e \<and> odd q));
          m = (if up then q + 1 else q) * 2 ^ e
      in if m < 2 ^ 1024 then Some m else None)"

definition to_double :: "int \<Rightarrow> whole_number" where
  "to_double n =
     (if n \<ge> 0 then (case round_magnitude n of Some m \<Rightarrow> Whole m | None \<Rightarrow> Pos_infinite)
      else (case round_magnitude (- n) of Some m \<Rightarrow> Whole (- m) | None \<Rightarrow> Neg_infinite))"

definition to_number :: "int option \<Rightarrow> whole_number" where
  "to_number a = (case a of None \<Rightarrow> Not_a_number | Some n \<Rightarrow> to_double n)"

text \<open>\<open>x * k\<close> for a whole number \<open>k\<close> that is a double itself, such as \<open>100000\<close>: the double
  nearest to the exact product.\<close>

definition js_times :: "whole_number \<Rightarrow> int \<Rightarrow> whole_number" where
  "js_times x k =
     (case x of
        Whole n \<Rightarrow> to_double (n * k)
      | Pos_infinite \<Rightarrow> if k > 0 then Pos_infinite else if k < 0 then Neg_infinite else Not_a_number
      | Neg_infinite \<Rightarrow> if k > 0 then Neg_infinite else if k < 0 then Pos_infinite else Not_a_number
      | Not_a_number \<Rightarrow> Not_a_number)"

section \<open>Regular expressions\<close>

text \<open>
  The regular expressions of the source are values of \<open>rx\<close>, run by a backtracking matcher
  that lists the ways a pattern can match at a position in the order in which JavaScript
  tries them: a greedy quantifier tries the longest repetition first, an alternative its
  left branch first. A state is the character before the position (for \<open>\b\<close>), the rest
  of the input, and the captures made so far, the latest first.
\<close>

datatype rx =
    Eps
  | Sat "char \<Rightarrow> bool"
  | Seq rx rx
  | Alt rx rx
  | Star rx
  | Grp nat rx
  | WordB
  | EndA

type_synonym mstate = "char option \<times> string \<times> (nat \<times> string) list"

definition rest_of :: "mstate \<Rightarrow> string" where
  "rest_of st = fst (snd st)"

definition caps_of :: "mstate \<Rightarrow> (nat \<times> string) list" where
  "caps_of st = snd (snd st)"

definition word_before :: "mstate \<Rightarrow> bool" where
  "word_before st = (case fst st of None \<Rightarrow> False | Some c \<Rightarrow> is_word c)"

definition word_after :: "mstate \<Rightarrow> bool" where
  "word_after st = (case rest_of st of [] \<Rightarrow> False | c # cs \<Rightarrow> is_word c)"

text \<open>
  Repetition, longest first. An iteration that consumes nothing is dropped, as
  JavaScript does; so every iteration shortens the rest and the length of the rest
  bounds the number of iterations.
\<close>

fun star_iter :: "(mstate \<Rightarrow> mstate list) \<Rightarrow> nat \<Rightarrow> mstate \<Rightarrow> mstate list" where
  "star_iter f 0 st = [st]"
| "star_iter f (Suc n) st =
     concat (map (\<lambda>st'. if length (rest_of st') < length (rest_of st) then star_iter f n st' else [])
                 (f st)) @ [st]"

primrec rmatch :: "rx \<Rightarrow> mstate \<Rightarrow> mstate list" where
  "rmatch Eps = (\<lambda>st. [st])"
| "rmatch (Sat P) = (\<lambda>st.
     case rest_of st of [] \<Rightarrow> []
     | c # cs \<Rightarrow> if P c then [(Some c, cs, caps_of st)] else [])"
| "rmatch (Seq a b) = (\<lambda>st. concat (map (rmatch b) (rmatch a st)))"
| "rmatch (Alt a b) = (\<lambda>st. rmatch a st @ rmatch b st)"
| "rmatch (Star a) = (\<lambda>st. star_iter (rmatch a) (length (rest_of st)) st)"
| "rmatch (Grp i a) = (\<lambda>st.
     map (\<lambda>st'. (fst st', rest_of st',
                 (i, take (length (rest_of st) - length (rest_of st')) (rest_of st)) # caps_of st'))
         (rmatch a st))"
| "rmatch WordB = (\<lambda>st. if word_before st \<noteq> word_after st then [st] else [])"
| "rmatch EndA = (\<lambda>st. if rest_of st = [] then [st] else [])"

text \<open>
  A match: the matched text (\<open>match[0]\<close>) and the captures (\<open>match[i]\<close>, \<open>undefined\<close> when
  group \<open>i\<close> took no part).
\<close>

record rmatch_result =
  matched :: string
  captures :: "(nat \<times> string) list"

definition group :: "rmatch_result \<Rightarrow> nat \<Rightarrow> string option" where
  "group m i = map_of (captures m) i"

text \<open>\<open>s.match(r)\<close> without the \<open>g\<close> flag: the first way to match at the leftmost position
  that has one.\<close>

fun search_from :: "rx \<Rightarrow> char option \<Rightarrow> string \<Rightarrow> rmatch_result option" where
  "search_from r prev s =
     (case rmatch r (prev, s, []) of
        st # _ \<Rightarrow> Some \<lparr>matched = take (length s - length (rest_of st)) s, captures = caps_of st\<rparr>
      | [] \<Rightarrow> (case s of [] \<Rightarrow> None | c # cs \<Rightarrow> search_from r (Some c) cs))"

definition rx_match :: "rx \<Rightarrow> string \<Rightarrow> rmatch_result option" where
  "rx_match r s = search_from r None s"

definition rx_test :: "rx \<Rightarrow> string \<Rightarrow> bool" where
  "rx_test r s = (rx_match r s \<noteq> None)"

text \<open>Pattern syntax: \<open>a+\<close>, \<open>a?\<close>, a literal, a literal under the \<open>i\<close> flag, classes.\<close>

definition Plus :: "rx \<Rightarrow> rx" where
  "Plus a = Seq a (Star a)"

definition Opt :: "rx \<Rightarrow> rx" where
  "Opt a = Alt a Eps"

definition Chr :: "char \<Rightarrow> rx" where
  "Chr c = Sat (\<lambda>x. x = c)"

definition ChrI :: "char \<Rightarrow> rx" where
  "ChrI c = Sat (\<lambda>x. x = lower_char c \<or> x = upper_char c)"

fun Lit :: "string \<Rightarrow> rx" where
  "Lit [] = Eps"
| "Lit [c] = Chr c"
| "Lit (c # cs) = Seq (Chr c) (Lit cs)"

fun LitI :: "string \<Rightarrow> rx" where
  "LitI [] = Eps"
| "LitI [c] = ChrI c"
| "LitI (c # cs) = Seq (ChrI c) (LitI cs)"

fun Alts :: "rx list \<Rightarrow> rx" where
  "Alts [] = Sat (\<lambda>x. False)"
| "Alts [a] = a"
| "Alts (a # as) = Alt a (Alts as)"

fun Seqs :: "rx list \<Rightarrow> rx" where
  "Seqs [] = Eps"
| "Seqs [a] = a"
| "Seqs (a # as) = Seq a (Seqs as)"

definition Digit :: rx where
  "Digit = Sat is_digit"

definition Space :: rx where
  "Space = Sat is_space"

definition Word :: rx where
  "Word = Sat is_word"

definition Upper :: rx where
  "Upper = Sat is_upper"

definition Lower :: rx where
  "Lower = Sat is_lower"

definition Letter :: rx where
  "Letter = Sat is_letter"

definition AnyChar :: rx where
  "AnyChar = Sat (\<lambda>c. \<not> is_line_end c)"

fun Rep :: "nat \<Rightarrow> rx \<Rightarrow> rx" where
  "Rep 0 a = Eps"
| "Rep (Suc 0) a = a"
| "Rep (Suc n) a = Seq a (Rep n a)"

section \<open>Pattern extractors\<close>

text \<open>\<open>/[\w.-]+@[\w.-]+\.\w+/\<close>\<close>

definition email_char :: "char \<Rightarrow> bool" where
  "email_char c = (is_word c \<or> c = CHR ''.'' \<or> c = CHR ''-'')"

definition emailPattern :: rx where
  "emailPattern = Seqs [Plus (Sat email_char), Chr CHR ''@'', Plus (Sat email_char), Chr CHR ''.'', Plus Word]"

definition extractEmail :: "string \<Rightarrow> string option" where
  "extractEmail query = (case rx_match emailPattern query of Some m \<Rightarrow> Some (matched m) | None \<Rightarrow> None)"

text \<open>\<open>/(\+91)?[\s-]?([6-9]\d{9})/\<close>\<close>

definition phonePattern :: rx where
  "phonePattern = Seqs [Opt (Grp 1 (Lit ''+91'')), Opt (Sat (\<lambda>c. is_space c \<or> c = CHR ''-'')),
     Grp 2 (Seq (Sat (\<lambda>c. 54 \<le> code_unit c \<and> code_unit c \<le> 57)) (Rep 9 Digit))]"

definition extractPhone :: "string \<Rightarrow> string option" where
  "extractPhone query = (case rx_match phonePattern query of Some m \<Rightarrow> group m 2 | None \<Rightarrow> None)"

text \<open>\<open>/([A-Z]{2,4}\d+)/i\<close>\<close>

definition jobIdPattern :: rx where
  "jobIdPattern = Grp 1 (Seqs [Letter, Letter, Opt (Seq Letter (Opt Letter)), Plus Digit])"

definition extractJobId :: "string \<Rightarrow> string option" where
  "extractJobId query =
     (case rx_match jobIdPattern query of Some m \<Rightarrow> Some (toUpperCase (matched m)) | None \<Rightarrow> None)"

datatype operator = Lt | Gt

text \<open>A number that \<open>parseInt\<close> produced is an \<^typ>\<open>int option\<close>, \<open>None\<close> for \<open>NaN\<close>.\<close>

record experience_filter =
  years :: "int option"
  exp_operator :: operator

text \<open>\<open>/(?:above|more than|over|greater than|>)\s*(\d+)\s*year|(?:less than|below|under|<)\s*(\d+)\s*year/i\<close>\<close>

definition experiencePattern :: rx where
  "experiencePattern = Alt
     (Seqs [Alts [LitI ''above'', LitI ''more than'', LitI ''over'', LitI ''greater than'', Chr CHR ''>''],
            Star Space, Grp 1 (Plus Digit), Star Space, LitI ''year''])
     (Seqs [Alts [LitI ''less than'', LitI ''below'', LitI ''under'', Chr CHR ''<''],
            Star Space, Grp 2 (Plus Digit), Star Space, LitI ''year''])"

text \<open>\<open>a || b\<close> on two captures: \<open>a\<close> unless it is \<open>undefined\<close> or empty.\<close>

definition or_else :: "string option \<Rightarrow> string option \<Rightarrow> string option" where
  "or_else a b = (case a of None \<Rightarrow> b | Some x \<Rightarrow> if x = [] then b else a)"

definition parseInt_opt :: "string option \<Rightarrow> int option" where
  "parseInt_opt a = (case a of None \<Rightarrow> None | Some x \<Rightarrow> parseInt x)"

definition extractExperience :: "string \<Rightarrow> experience_filter option" where
  "extractExperience query =
     (case rx_match experiencePattern query of
        None \<Rightarrow> None
      | Some m \<Rightarrow> Some \<lparr>years = parseInt_opt (or_else (group m 1) (group m 2)),
          exp_operator =
            (if str_includes (toLowerCase query) ''above'' \<or> str_includes (toLowerCase query) ''more''
                \<or> str_includes (toLowerCase query) ''over'' \<or> str_includes (toLowerCase query) ''greater''
             then Gt else Lt)\<rparr>)"

record salary_filter =
  amount :: whole_number
  sal_operator :: operator

text \<open>\<open>/(\d+)\s*(l|lakh|lpa)/i\<close>\<close>

definition salaryPattern :: rx where
  "salaryPattern = Seqs [Grp 1 (Plus Digit), Star Space, Grp 2 (Alts [LitI ''l'', LitI ''lakh'', LitI ''lpa''])]"

definition extractSalary :: "string \<Rightarrow> salary_filter option" where
  "extractSalary query =
     (case rx_match salaryPattern query of
        None \<Rightarrow> None
      | Some m \<Rightarrow> Some \<lparr>amount = js_times (to_number (parseInt_opt (group m 1))) 100000,
          sal_operator = (if str_includes query ''below'' \<or> str_includes query ''under'' then Lt else Gt)\<rparr>)"

record score_filter =
  score :: "int option"
  sc_operator :: operator

text \<open>\<open>/score\s*(above|below|over|under|>|<)\s*(\d+)/i\<close>, and \<open>/(below|under|<)/\<close> on its
  first capture.\<close>

definition scorePattern :: rx where
  "scorePattern = Seqs [LitI ''score'', Star Space,
     Grp 1 (Alts [LitI ''above'', LitI ''below'', LitI ''over'', LitI ''under'', Chr CHR ''>'', Chr CHR ''<'']),
     Star Space, Grp 2 (Plus Digit)]"

definition belowPattern :: rx where
  "belowPattern = Grp 1 (Alts [Lit ''below'', Lit ''under'', Chr CHR ''<''])"

definition extractScore :: "string \<Rightarrow> score_filter option" where
  "extractScore query =
     (case rx_match scorePattern query of
        None \<Rightarrow> None
      | Some m \<Rightarrow> Some \<lparr>score = parseInt_opt (group m 2),
          sc_operator = (if rx_test belowPattern (case group m 1 of Some g \<Rightarrow> g | None \<Rightarrow> []) then Lt else Gt)\<rparr>)"

text \<open>\<open>.replace(/[^\w\s]/g, ' ')\<close> and \<open>.replace(/\s+/g, ' ')\<close>\<close>

definition strip_punct :: "string \<Rightarrow> string" where
  "strip_punct s = map (\<lambda>c. if is_word c \<or> is_space c then c else CHR '' '') s"

fun collapse_from :: "bool \<Rightarrow> string \<Rightarrow> string" where
  "collapse_from in_run [] = []"
| "collapse_from in_run (c # cs) =
     (if is_space c then (if in_run then collapse_from True cs else CHR '' '' # collapse_from True cs)
      else c # collapse_from False cs)"

definition collapse_spaces :: "string \<Rightarrow> string" where
  "collapse_spaces s = collapse_from False s"

definition normalizeForSearch :: "string \<Rightarrow> string" where
  "normalizeForSearch text = trim (collapse_spaces (strip_punct (toLowerCase text)))"

text \<open>\<open>.sort((a, b) => b.length - a.length)\<close>: a stable sort, longest first.\<close>

definition sort_longest_first :: "string list \<Rightarrow> string list" where
  "sort_longest_first xs = sort_key (\<lambda>s. - int (length s)) xs"

definition first_of :: "'a list \<Rightarrow> 'a option" where
  "first_of xs = (case xs of [] \<Rightarrow> None | x # _ \<Rightarrow> Some x)"

definition skillKeywords :: "string list" where
  "skillKeywords =
    [''javascript'', ''typescript'', ''react'', ''node'', ''python'', ''java'',
     ''dialogflow'', ''playwright'', ''aws'', ''azure'', ''gcp'', ''servicenow'', ''service now'',
     ''sql'', ''mongodb'', ''kubernetes'', ''docker'', ''angular'', ''vue'',
     ''sap'', ''fico'', ''abap'', ''hana'', ''erp'', ''crm'', ''power bi'', ''powerbi'',
     ''tableau'', ''excel'', ''data science'', ''machine learning'', ''ml'',
     ''ai'', ''artificial intelligence'', ''deep learning'', ''nlp'',
     ''c++'', ''c#'', ''golang'', ''rust'', ''php'', ''ruby'', ''scala'',
     ''jenkins'', ''gitlab'', ''github'', ''devops'', ''ci/cd'', ''cicd'',
     ''sap fico'', ''sap mm'', ''sap sd'', ''sap hana'', ''sap abap'']"

definition extractSkill :: "string \<Rightarrow> string option" where
  "extractSkill query =
     (let lowerQuery = trim (collapse_spaces (strip_punct (toLowerCase query)))
      in first_of (sort_longest_first (filter (\<lambda>skill. str_includes lowerQuery skill) skillKeywords)))"

definition jobTitles :: "string list" where
  "jobTitles =
    [''data scientist'', ''data analyst'', ''data engineer'',
     ''software engineer'', ''software developer'', ''developer'',
     ''full stack'', ''fullstack'', ''frontend'', ''front end'', ''backend'', ''back end'',
     ''devops engineer'', ''devops'',
     ''sap consultant'', ''sap fico'', ''sap mm'', ''sap sd'', ''sap hana'', ''sap abap'',
     ''business analyst'', ''business intelligence'',
     ''project manager'', ''product manager'',
     ''qa engineer'', ''quality assurance'', ''tester'',
     ''ui/ux designer'', ''ux designer'', ''ui designer'',
     ''cloud architect'', ''solution architect'', ''technical architect'',
     ''machine learning engineer'', ''ml engineer'', ''ai engineer'',
     ''data analyst'', ''mis executive'', ''mis analyst'',
     ''accounts executive'', ''accountant'', ''finance manager'']"

definition extractJobTitle :: "string \<Rightarrow> string option" where
  "extractJobTitle query =
     (let lowerQuery = trim (collapse_spaces (strip_punct (toLowerCase query)))
      in first_of (sort_longest_first (filter (\<lambda>title. str_includes lowerQuery title) jobTitles)))"

section \<open>Similarity\<close>

text \<open>
  The result of a JavaScript division of two sizes: a number, \<open>Infinity\<close> or \<open>NaN\<close>.
  \<open>Infinity\<close> and \<open>NaN\<close> are what a division by zero gives.
\<close>

datatype js_number = Num rat | PosInfinity | NaN

definition js_div :: "nat \<Rightarrow> nat \<Rightarrow> js_number" where
  "js_div a b = (if b = 0 then (if a = 0 then NaN else PosInfinity) else Num (of_nat a / of_nat b))"

definition js_gt :: "js_number \<Rightarrow> rat \<Rightarrow> bool" where
  "js_gt x r = (case x of Num q \<Rightarrow> q > r | PosInfinity \<Rightarrow> True | NaN \<Rightarrow> False)"

text \<open>\<open>new Set(s.split(''))\<close> lists the distinct characters in the order of their first
  occurrence.\<close>

definition calculateSimilarity :: "string \<Rightarrow> string \<Rightarrow> js_number" where
  "calculateSimilarity str1 str2 =
     (let s1 = normalizeForSearch str1; s2 = normalizeForSearch str2
      in if s1 = s2 then Num 1
         else if str_includes s1 s2 \<or> str_includes s2 s1 then Num (8 / 10)
         else (let chars1 = remdups s1; chars2 = remdups s2;
                   intersection = remdups (filter (\<lambda>x. x \<in> set chars2) chars1);
                   union = remdups (chars1 @ chars2)
               in js_div (length intersection) (length union)))"

section \<open>Requested count\<close>

text \<open>\<open>/(?:top|first|best|show|list|give me|find)\s+(\d+)/i\<close> and
  \<open>/(\d+)\s+(?:candidates|jobs|clients|people|profiles)/i\<close>\<close>

definition countPatterns :: "rx list" where
  "countPatterns =
    [Seqs [Alts [LitI ''top'', LitI ''first'', LitI ''best'', LitI ''show'', LitI ''list'',
                 LitI ''give me'', LitI ''find''], Plus Space, Grp 1 (Plus Digit)],
     Seqs [Grp 1 (Plus Digit), Plus Space,
           Alts [LitI ''candidates'', LitI ''jobs'', LitI ''clients'', LitI ''people'', LitI ''profiles'']]]"

text \<open>The loop over the patterns: a pattern whose number is out of range is passed over.\<close>

fun count_from :: "rx list \<Rightarrow> string \<Rightarrow> int option" where
  "count_from [] query = None"
| "count_from (pattern # patterns) query =
     (case rx_match pattern query of
        None \<Rightarrow> count_from patterns query
      | Some m \<Rightarrow>
          (case parseInt_opt (group m 1) of
             None \<Rightarrow> count_from patterns query
           | Some count \<Rightarrow> if count \<ge> 1 \<and> count \<le> 100 then Some count else count_from patterns query))"

definition extractRequestedCount :: "string \<Rightarrow> int option" where
  "extractRequestedCount query = count_from countPatterns query"

section \<open>Query classifier\<close>

datatype query_type = Greeting | Recruitment | Off_topic | Help | Unclear

record classification =
  qtype :: query_type
  confidence :: rat

definition greetings :: "string list" where
  "greetings = [''hi'', ''hello'', ''hey'', ''good morning'', ''good afternoon'', ''good evening'', ''greetings'']"

definition helpKeywords :: "string list" where
  "helpKeywords = [''help'', ''what can you do'', ''how do you work'', ''capabilities'', ''features'']"

definition recruitmentKeywords :: "string list" where
  "recruitmentKeywords =
    [''candidate'', ''job'', ''position'', ''opening'', ''vacancy'', ''role'', ''hire'', ''hiring'',
     ''resume'', ''cv'', ''skill'', ''experience'', ''interview'', ''status'', ''application'',
     ''salary'', ''ctc'', ''compensation'', ''location'', ''qualification'', ''education'',
     ''client'', ''project'', ''screening'', ''selected'', ''rejected'', ''pipeline'',
     ''analytics'', ''report'', ''metrics'', ''jd'', ''job description'', ''profile'']"

text \<open>\<open>/\b[A-Z][a-z]+(?:\s+[A-Z][a-z]+)+\b/\<close>. An extractor returns a matched text, which is
  not empty, or \<open>null\<close>: its result is truthy exactly when it is not \<open>null\<close>.\<close>

definition namePattern :: rx where
  "namePattern = Seqs [WordB, Upper, Plus Lower, Plus (Seqs [Plus Space, Upper, Plus Lower]), WordB]"

definition classifyQuery :: "string \<Rightarrow> classification" where
  "classifyQuery query =
     (let lowerQuery = trim (toLowerCase query);
          hasRecruitmentKeyword = list_ex (\<lambda>kw. str_includes lowerQuery kw) recruitmentKeywords;
          hasIdentifier = (extractEmail query \<noteq> None \<or> extractPhone query \<noteq> None \<or> extractJobId query \<noteq> None)
      in if list_ex (\<lambda>g. lowerQuery = g \<or> startsWith lowerQuery (g @ '' '')) greetings
           then \<lparr>qtype = Greeting, confidence = 1\<rparr>
         else if list_ex (\<lambda>kw. str_includes lowerQuery kw) helpKeywords
           then \<lparr>qtype = Help, confidence = 9 / 10\<rparr>
         else if hasRecruitmentKeyword \<or> hasIdentifier
           then \<lparr>qtype = Recruitment, confidence = 9 / 10\<rparr>
         else if rx_test namePattern query \<and> length (split_space query) \<le> 5
           then \<lparr>qtype = Recruitment, confidence = 7 / 10\<rparr>
         else if length (split_space query) \<le> 3 \<and> \<not> hasRecruitmentKeyword
           then \<lparr>qtype = Unclear, confidence = 5 / 10\<rparr>
         else \<lparr>qtype = Off_topic, confidence = 8 / 10\<rparr>)"

section \<open>Conversation history\<close>

record message =
  role :: string
  content :: string

text \<open>\<open>/\*\*([A-Z][a-z]+\s+[A-Z][a-z]+(?:\s+[A-Z][a-z]+)?)\*\*/\<close>,
  \<open>/Email:\s*[\w.-]+@[\w.-]+\.\w+/i\<close> and
  \<open>/(?:Candidate|Name):\s*\*\*([A-Z][a-z]+\s+[A-Z][a-z]+)\*\*/i\<close>; under the \<open>i\<close> flag
  \<open>[A-Z]\<close> and \<open>[a-z]\<close> both match any letter.\<close>

definition boldNamePattern :: rx where
  "boldNamePattern = Seqs [Lit ''**'',
     Grp 1 (Seqs [Upper, Plus Lower, Plus Space, Upper, Plus Lower, Opt (Seqs [Plus Space, Upper, Plus Lower])]),
     Lit ''**'']"

definition emailLinePattern :: rx where
  "emailLinePattern = Seqs [LitI ''Email:'', Star Space, Plus (Sat email_char), Chr CHR ''@'',
     Plus (Sat email_char), Chr CHR ''.'', Plus Word]"

definition nameBeforeEmailPattern :: rx where
  "nameBeforeEmailPattern = Seqs [Alts [LitI ''Candidate'', LitI ''Name''], Chr CHR '':'', Star Space, Lit ''**'',
     Grp 1 (Seqs [Letter, Plus Letter, Plus Space, Letter, Plus Letter]), Lit ''**'']"

text \<open>\<open>xs.slice(-3)\<close>\<close>

definition last3 :: "'a list \<Rightarrow> 'a list" where
  "last3 xs = drop (length xs - 3) xs"

fun name_from_messages :: "message list \<Rightarrow> string option" where
  "name_from_messages [] = None"
| "name_from_messages (msg # msgs) =
     (case rx_match boldNamePattern (content msg) of
        Some boldNameMatch \<Rightarrow> group boldNameMatch 1
      | None \<Rightarrow>
          (case (rx_match emailLinePattern (content msg), rx_match nameBeforeEmailPattern (content msg)) of
             (Some emailMatch, Some nameBeforeEmail) \<Rightarrow> group nameBeforeEmail 1
           | _ \<Rightarrow> name_from_messages msgs))"

definition extractNameFromHistory :: "message list \<Rightarrow> string option" where
  "extractNameFromHistory conversationHistory =
     name_from_messages (last3 (filter (\<lambda>m. role m = ''assistant'') conversationHistory))"

text \<open>\<open>/(?:similar to|like|candidates like)\s+([A-Z][a-z]+(?:\s+[A-Z][a-z]+)?)/i\<close>,
  \<open>/(?:find|show|get)\s+([A-Z][a-z]+\s+[A-Z][a-z]+)/i\<close> and
  \<open>/([A-Z][a-z]+\s+[A-Z][a-z]+)\s+(?:profile|details|information)/i\<close>\<close>

definition namePatterns :: "rx list" where
  "namePatterns =
    [Seqs [Alts [LitI ''similar to'', LitI ''like'', LitI ''candidates like''], Plus Space,
           Grp 1 (Seqs [Letter, Plus Letter, Opt (Seqs [Plus Space, Letter, Plus Letter])])],
     Seqs [Alts [LitI ''find'', LitI ''show'', LitI ''get''], Plus Space,
           Grp 1 (Seqs [Letter, Plus Letter, Plus Space, Letter, Plus Letter])],
     Seqs [Grp 1 (Seqs [Letter, Plus Letter, Plus Space, Letter, Plus Letter]), Plus Space,
           Alts [LitI ''profile'', LitI ''details'', LitI ''information'']]]"

fun name_from_patterns :: "rx list \<Rightarrow> string \<Rightarrow> string option" where
  "name_from_patterns [] query = None"
| "name_from_patterns (pattern # patterns) query =
     (case rx_match pattern query of
        Some m \<Rightarrow> group m 1
      | None \<Rightarrow> name_from_patterns patterns query)"

definition extractNameFromQuery :: "string \<Rightarrow> string option" where
  "extractNameFromQuery query = name_from_patterns namePatterns query"

definition semanticKeywords :: "string list" where
  "semanticKeywords =
    [''similar to'', ''like'', ''candidates with expertise in'', ''find someone who'', ''looking for'',
     ''good fit for'', ''experience in'', ''background in'', ''specializes in'', ''expert in'',
     ''proficient in'', ''skilled in'', ''who knows'', ''familiar with'']"

definition shouldUseSemanticSearch :: "string \<Rightarrow> bool" where
  "shouldUseSemanticSearch query =
     list_ex (\<lambda>kw. str_includes (toLowerCase query) kw) semanticKeywords"

text \<open>\<open>/(\d+)\s*year/i\<close> and \<open>/(\d+)\s*month/i\<close>; the result is \<open>years + months / 12\<close>.\<close>

definition yearPattern :: rx where
  "yearPattern = Seqs [Grp 1 (Plus Digit), Star Space, LitI ''year'']"

definition monthPattern :: rx where
  "monthPattern = Seqs [Grp 1 (Plus Digit), Star Space, LitI ''month'']"

definition int_or_zero :: "int option \<Rightarrow> rat" where
  "int_or_zero n = (case n of None \<Rightarrow> 0 | Some k \<Rightarrow> of_int k)"

definition parseExperience :: "string \<Rightarrow> rat" where
  "parseExperience experienceText =
     (if experienceText = [] then 0
      else (let years = (case rx_match yearPattern experienceText of
                           Some yearMatch \<Rightarrow> int_or_zero (parseInt_opt (group yearMatch 1)) | None \<Rightarrow> 0);
                months = (case rx_match monthPattern experienceText of
                           Some monthMatch \<Rightarrow> int_or_zero (parseInt_opt (group monthMatch 1)) | None \<Rightarrow> 0)
            in years + months / 12))"

section \<open>The external store\<close>

text \<open>
  A row of the store, with the columns the router reads on the client side, typed as the
  interfaces \<open>Candidate\<close> and \<open>Job\<close> declare them: text or \<open>null\<close>, a number or \<open>null\<close>. The
  column \<open>skills\<close> holds an array of texts, and the router also accepts a text there; it is
  a \<open>column_value\<close>.
\<close>

datatype column_value = Null | Text string | Array "string list"

record row =
  row_id :: string
  name :: "string option"
  skills :: column_value
  experience :: "string option"
  resume_text :: "string option"
  overall_score :: "rat option"
  title :: "string option"
  description :: "string option"

text \<open>
  A read of the store: the table, the filters in the order in which they are chained,
  the ordering (column, ascending, \<open>nullsFirst\<close>) and the limit. The list of columns that a
  read selects is not part of it.
\<close>

datatype db_filter =
    Eq string string
  | Ilike string string
  | NotNull string
  | Gte string whole_number
  | Lte string whole_number
  | Or string
  | In_ids "string list"

record db_query =
  q_table :: string
  q_filters :: "db_filter list"
  q_order :: "(string \<times> bool \<times> bool option) option"
  q_limit :: "int option"

text \<open>
  The collaborators of one request. A read answers with its \<open>data\<close>, which is \<open>None\<close>
  (\<open>null\<close>) when the store reports an error. The embedding interface answers with a vector
  or fails; the vector-match procedure answers with pairs of a candidate id and a similarity.
\<close>

record env =
  store :: "db_query \<Rightarrow> row list option"
  embedding_api :: "string \<Rightarrow> rat list option"
  match_candidates :: "rat list \<Rightarrow> rat \<Rightarrow> int \<Rightarrow> (string \<times> rat option) list option"

definition select_all :: "string \<Rightarrow> db_query" where
  "select_all t = \<lparr>q_table = t, q_filters = [], q_order = None, q_limit = None\<rparr>"

definition with_filter :: "db_filter \<Rightarrow> db_query \<Rightarrow> db_query" where
  "with_filter f q = q\<lparr>q_filters := q_filters q @ [f]\<rparr>"

definition with_order :: "string \<Rightarrow> bool \<Rightarrow> bool option \<Rightarrow> db_query \<Rightarrow> db_query" where
  "with_order column ascending nullsFirst q = q\<lparr>q_order := Some (column, ascending, nullsFirst)\<rparr>"

definition with_limit :: "int \<Rightarrow> db_query \<Rightarrow> db_query" where
  "with_limit n q = q\<lparr>q_limit := Some n\<rparr>"

text \<open>\<open>a || ''\<close> on a text column, and the text of the \<open>skills\<close> column:
  \<open>c.skills ? (Array.isArray(c.skills) ? c.skills.join(' ') : c.skills) : ''\<close>.\<close>

definition or_empty :: "string option \<Rightarrow> string" where
  "or_empty a = (case a of None \<Rightarrow> [] | Some x \<Rightarrow> x)"

definition skills_text :: "column_value \<Rightarrow> string" where
  "skills_text v = (case v of Null \<Rightarrow> [] | Text t \<Rightarrow> t | Array xs \<Rightarrow> join_space xs)"

text \<open>\<open>xs.slice(0, n)\<close>; \<open>NaN\<close> counts as 0 and a negative \<open>n\<close> counts from the end.\<close>

definition slice0 :: "int option \<Rightarrow> 'a list \<Rightarrow> 'a list" where
  "slice0 n xs = (case n of None \<Rightarrow> []
     | Some k \<Rightarrow> if k \<ge> 0 then take (nat k) xs else take (nat (int (length xs) + k)) xs)"

section \<open>Semantic search\<close>

text \<open>
  \<open>EmbeddingService.generateEmbedding\<close> and \<open>EmbeddingService.searchSimilarCandidates\<close>: every
  failure inside is caught and gives the empty list. A found candidate carries the
  similarity of its match. The result comes with the table reads that were issued.
\<close>

definition generateEmbedding :: "env \<Rightarrow> string \<Rightarrow> rat list option" where
  "generateEmbedding e text = embedding_api e (take 8000 (trim (collapse_spaces text)))"

definition searchSimilarCandidates ::
  "env \<Rightarrow> string \<Rightarrow> int \<Rightarrow> rat \<Rightarrow> db_query list \<times> (row \<times> rat option) list" where
  "searchSimilarCandidates e query match_count threshold =
     (case generateEmbedding e query of
        None \<Rightarrow> ([], [])
      | Some embedding \<Rightarrow>
          (case match_candidates e embedding threshold match_count of
             None \<Rightarrow> ([], [])
           | Some data \<Rightarrow>
               if data = [] then ([], [])
               else (let q = with_filter (In_ids (map fst data)) (select_all ''hr_job_candidates'')
                     in ([q], case store e q of
                           None \<Rightarrow> []
                         | Some candidates \<Rightarrow>
                             map (\<lambda>candidate. (candidate,
                                    (case map_of data (row_id candidate) of Some (Some sim) \<Rightarrow> Some sim | _ \<Rightarrow> None)))
                                 candidates))))"

section \<open>Retrieval router\<close>

text \<open>The \<open>data\<close> of a result, and the result \<open>{ type, data }\<close>.\<close>

datatype search_data =
    No_data
  | Candidates "row list"
  | Top_for "row list" string "int option"
  | Followup "row list" string
  | Jobs "row list"
  | Semantic "(row \<times> rat option) list"
  | By_experience "(row \<times> rat) list"
  | Clients "row list" "row list option" string
  | Statuses "row list"
  | Broad "row list" string

record search_result =
  res_type :: string
  res_data :: search_data

text \<open>
  One strategy of the router: the reads it issues, in order, and its result, \<open>None\<close> when
  it does not apply or finds nothing. \<open>smartSearch\<close> runs the strategies in the order of
  the source and stops at the first result; the reads of the strategies it does not
  reach are not issued.
\<close>

type_synonym attempt = "db_query list \<times> search_result option"

definition skip :: attempt where
  "skip = ([], None)"

text \<open>\<open>if (data && data.length > 0) return { type, data }\<close>\<close>

definition found :: "string \<Rightarrow> (row list \<Rightarrow> search_data) \<Rightarrow> row list option \<Rightarrow> search_result option" where
  "found t mk data = (case data of None \<Rightarrow> None
     | Some rows \<Rightarrow> if rows = [] then None else Some \<lparr>res_type = t, res_data = mk rows\<rparr>)"

definition then_try :: "attempt \<Rightarrow> attempt \<Rightarrow> attempt" where
  "then_try a b = (case snd a of Some result \<Rightarrow> a | None \<Rightarrow> (fst a @ fst b, snd b))"

fun attempts :: "attempt list \<Rightarrow> attempt" where
  "attempts [] = skip"
| "attempts (a # as) = then_try a (attempts as)"

definition candidates_table :: db_query where
  "candidates_table = select_all ''hr_job_candidates''"

text \<open>\<open>requestedLimit || 20\<close>\<close>

definition default_limit :: "int option \<Rightarrow> int" where
  "default_limit requestedLimit = (case requestedLimit of None \<Rightarrow> 20 | Some n \<Rightarrow> if n = 0 then 20 else n)"

text \<open>The test on one field in the strategies "top N of X" and "job title".\<close>

definition field_matches :: "string \<Rightarrow> string \<Rightarrow> bool" where
  "field_matches searchNormalized field =
     (let normalized = normalizeForSearch field
      in str_includes normalized searchNormalized \<or>
         list_all (\<lambda>word. str_includes normalized word \<or> js_gt (calculateSimilarity normalized word) (7 / 10))
                  (split_space searchNormalized))"

text \<open>\<open>/(?:top|best|show|list|find)\s+(\d+)?\s*(?:candidates?)?\s+(?:of|for|with|in)\s+(.+)/i\<close>\<close>

definition topCandidatesOfPattern :: rx where
  "topCandidatesOfPattern = Seqs
    [Alts [LitI ''top'', LitI ''best'', LitI ''show'', LitI ''list'', LitI ''find''], Plus Space,
     Opt (Grp 1 (Plus Digit)), Star Space, Opt (Seq (LitI ''candidate'') (Opt (ChrI CHR ''s''))), Plus Space,
     Alts [LitI ''of'', LitI ''for'', LitI ''with'', LitI ''in''], Plus Space, Grp 2 (Plus AnyChar)]"

definition top_of_query :: db_query where
  "top_of_query = with_limit 200 (with_order ''overall_score'' False None
     (with_filter (NotNull ''overall_score'') candidates_table))"

definition top_of_strategy :: "env \<Rightarrow> string \<Rightarrow> int \<Rightarrow> attempt" where
  "top_of_strategy e query defaultLimit =
     (case rx_match topCandidatesOfPattern query of
        None \<Rightarrow> skip
      | Some topMatch \<Rightarrow>
          (let count = (case group topMatch 1 of
                          None \<Rightarrow> Some defaultLimit
                        | Some g \<Rightarrow> if g = [] then Some defaultLimit else parseInt g);
               searchTerm = trim (or_empty (group topMatch 2))
           in ([top_of_query],
               case store e top_of_query of
                 None \<Rightarrow> None
               | Some allCandidates \<Rightarrow>
                   if allCandidates = [] then None
                   else (let matchedCandidates = filter (\<lambda>candidate.
                                 list_ex (field_matches (normalizeForSearch searchTerm))
                                   [skills_text (skills candidate), or_empty (experience candidate),
                                    or_empty (resume_text candidate)]) allCandidates;
                             topResults = slice0 count matchedCandidates
                         in if topResults = [] then None
                            else Some \<lparr>res_type = ''top_candidates_for_skill'',
                                       res_data = Top_for topResults searchTerm count\<rparr>))))"

text \<open>\<open>/(?:top|best|highest)\s+\d+\s*(?:candidates?)?/i\<close> and
  \<open>/(?:all|every|show)\s+(?:the\s+)?candidates?(?:\s+list)?$/i\<close>\<close>

definition topCandidatesPattern :: rx where
  "topCandidatesPattern = Seqs [Alts [LitI ''top'', LitI ''best'', LitI ''highest''], Plus Space, Plus Digit,
     Star Space, Opt (Seq (LitI ''candidate'') (Opt (ChrI CHR ''s'')))]"

definition allCandidatesPattern :: rx where
  "allCandidatesPattern = Seqs [Alts [LitI ''all'', LitI ''every'', LitI ''show''], Plus Space,
     Opt (Seq (LitI ''the'') (Plus Space)), LitI ''candidate'', Opt (ChrI CHR ''s''),
     Opt (Seq (Plus Space) (LitI ''list'')), EndA]"

definition no_filters :: "string \<Rightarrow> bool" where
  "no_filters query = (extractEmail query = None \<and> extractPhone query = None \<and> extractSkill query = None)"

definition top_strategy :: "env \<Rightarrow> string \<Rightarrow> string \<Rightarrow> int \<Rightarrow> attempt" where
  "top_strategy e query lowerQuery defaultLimit =
     (if rx_test topCandidatesPattern lowerQuery \<and> no_filters query
      then (let q = with_limit defaultLimit (with_order ''overall_score'' False None
                      (with_filter (NotNull ''overall_score'') candidates_table))
            in ([q], found ''top_candidates'' Candidates (store e q)))
      else skip)"

definition all_strategy :: "env \<Rightarrow> string \<Rightarrow> string \<Rightarrow> int \<Rightarrow> attempt" where
  "all_strategy e query lowerQuery defaultLimit =
     (if rx_test allCandidatesPattern lowerQuery \<and> no_filters query
      then (let q = with_limit defaultLimit (with_order ''overall_score'' False (Some False) candidates_table)
            in ([q], found ''all_candidates'' Candidates (store e q)))
      else skip)"

definition followUpKeywords :: "string list" where
  "followUpKeywords = [''applied'', ''date'', ''when'', ''status'', ''interview'', ''skills'', ''experience'',
     ''salary'', ''their'', ''his'', ''her'', ''what about'', ''tell me more'']"

definition followup_strategy :: "env \<Rightarrow> string \<Rightarrow> string \<Rightarrow> message list \<Rightarrow> attempt" where
  "followup_strategy e query lowerQuery conversationHistory =
     (let isFollowUp = (list_ex (\<lambda>kw. str_includes lowerQuery kw) followUpKeywords
                         \<and> length (split_space lowerQuery) < 8
                         \<and> extractEmail query = None \<and> extractPhone query = None)
      in if isFollowUp \<and> conversationHistory \<noteq> []
         then (case extractNameFromHistory conversationHistory of
                 None \<Rightarrow> skip
               | Some contextName \<Rightarrow>
                   if contextName = [] then skip
                   else (let q = with_limit 5 (with_filter (Ilike ''name'' (''%'' @ contextName @ ''%'')) candidates_table)
                         in ([q], found ''candidate_followup'' (\<lambda>rows. Followup rows contextName) (store e q))))
         else skip)"

text \<open>The identifier searches.\<close>

definition email_query :: "string \<Rightarrow> db_query" where
  "email_query email = with_filter (Eq ''email'' email) candidates_table"

definition email_strategy :: "env \<Rightarrow> string \<Rightarrow> attempt" where
  "email_strategy e query =
     (case extractEmail query of
        None \<Rightarrow> skip
      | Some email \<Rightarrow>
          if email = [] then skip
          else ([email_query email], found ''candidate_full_details'' Candidates (store e (email_query email))))"

definition phone_strategy :: "env \<Rightarrow> string \<Rightarrow> attempt" where
  "phone_strategy e query =
     (case extractPhone query of
        None \<Rightarrow> skip
      | Some phone \<Rightarrow>
          if phone = [] then skip
          else (let q = with_filter (Ilike ''phone'' (''%'' @ phone @ ''%'')) candidates_table
                in ([q], found ''candidate_full_details'' Candidates (store e q))))"

definition jobid_strategy :: "env \<Rightarrow> string \<Rightarrow> attempt" where
  "jobid_strategy e query =
     (case extractJobId query of
        None \<Rightarrow> skip
      | Some jobId \<Rightarrow>
          if jobId = [] then skip
          else (let q = with_filter (Eq ''job_id'' jobId) (select_all ''hr_jobs'')
                in ([q], found ''job_details'' Jobs (store e q))))"

definition semantic_strategy :: "env \<Rightarrow> string \<Rightarrow> attempt" where
  "semantic_strategy e query =
     (if shouldUseSemanticSearch query
      then (let semanticResults = searchSimilarCandidates e query 10 (7 / 10)
            in (fst semanticResults,
                if snd semanticResults = [] then None
                else Some \<lparr>res_type = ''semantic_search'', res_data = Semantic (snd semanticResults)\<rparr>))
      else skip)"

text \<open>The numeric filters. A comparison with \<open>NaN\<close> is false.\<close>

definition gt_num :: "rat \<Rightarrow> int option \<Rightarrow> bool" where
  "gt_num x n = (case n of None \<Rightarrow> False | Some k \<Rightarrow> x > of_int k)"

definition lt_num :: "rat \<Rightarrow> int option \<Rightarrow> bool" where
  "lt_num x n = (case n of None \<Rightarrow> False | Some k \<Rightarrow> x < of_int k)"

definition experience_strategy :: "env \<Rightarrow> string \<Rightarrow> attempt" where
  "experience_strategy e query =
     (case extractExperience query of
        None \<Rightarrow> skip
      | Some experienceFilter \<Rightarrow>
          (let q = with_filter (NotNull ''experience'') candidates_table;
               filtered = (case store e q of
                   None \<Rightarrow> []
                 | Some allCandidates \<Rightarrow>
                     take 30 (filter (\<lambda>c. if exp_operator experienceFilter = Gt
                                            then gt_num (snd c) (years experienceFilter)
                                            else lt_num (snd c) (years experienceFilter))
                                (map (\<lambda>c. (c, parseExperience (or_empty (experience c)))) allCandidates)))
           in ([q], if filtered = [] then None
                    else Some \<lparr>res_type = ''candidates_by_experience'', res_data = By_experience filtered\<rparr>)))"

definition score_strategy :: "env \<Rightarrow> string \<Rightarrow> int \<Rightarrow> attempt" where
  "score_strategy e query defaultLimit =
     (case extractScore query of
        None \<Rightarrow> skip
      | Some scoreFilter \<Rightarrow>
          (let q = with_limit defaultLimit (with_order ''overall_score'' False None
                     (with_filter ((if sc_operator scoreFilter = Gt then Gte else Lte) ''overall_score''
                                     (to_number (score scoreFilter)))
                        (with_filter (NotNull ''overall_score'') candidates_table)))
           in ([q], found ''candidates_by_score'' Candidates (store e q))))"

definition salary_strategy :: "env \<Rightarrow> string \<Rightarrow> int \<Rightarrow> attempt" where
  "salary_strategy e query defaultLimit =
     (case extractSalary query of
        None \<Rightarrow> skip
      | Some salaryFilter \<Rightarrow>
          (let q = with_limit defaultLimit
                     (with_filter ((if sal_operator salaryFilter = Gt then Gte else Lte) ''expected_salary'' (amount salaryFilter))
                        (with_filter (NotNull ''expected_salary'') candidates_table))
           in ([q], found ''candidates_by_salary'' Candidates (store e q))))"

text \<open>The skill search: up to 100 candidates are fetched and filtered on the client side.\<close>

definition sample_query :: db_query where
  "sample_query = with_limit 100 candidates_table"

definition skill_matches :: "string \<Rightarrow> string \<Rightarrow> bool" where
  "skill_matches skill candidateSkill =
     (let normalized = normalizeForSearch candidateSkill;
          searchNormalized = normalizeForSearch skill
      in str_includes normalized searchNormalized \<or> str_includes searchNormalized normalized
         \<or> js_gt (calculateSimilarity normalized searchNormalized) (7 / 10))"

definition has_skill :: "string \<Rightarrow> row \<Rightarrow> bool" where
  "has_skill skill candidate =
     (case skills candidate of
        Null \<Rightarrow> False
      | Text t \<Rightarrow> if t = [] then False else skill_matches skill t
      | Array skillsArray \<Rightarrow> list_ex (skill_matches skill) skillsArray)"

definition skill_strategy :: "env \<Rightarrow> string \<Rightarrow> int \<Rightarrow> attempt" where
  "skill_strategy e query defaultLimit =
     (case extractSkill query of
        None \<Rightarrow> skip
      | Some skill \<Rightarrow>
          if skill = [] then skip
          else ([sample_query],
                case store e sample_query of
                  None \<Rightarrow> None
                | Some allCandidates \<Rightarrow>
                    if allCandidates = [] then None
                    else (let limitedResults = slice0 (Some defaultLimit) (filter (has_skill skill) allCandidates)
                          in if limitedResults = [] then None
                             else Some \<lparr>res_type = ''candidates_by_skill'', res_data = Candidates limitedResults\<rparr>)))"

text \<open>The job-title search: candidates first, then the job postings.\<close>

definition jobs_sample_query :: db_query where
  "jobs_sample_query = with_limit 50 (select_all ''hr_jobs'')"

definition title_candidates :: "env \<Rightarrow> string \<Rightarrow> int \<Rightarrow> search_result option" where
  "title_candidates e jobTitle defaultLimit =
     (case store e sample_query of
        None \<Rightarrow> None
      | Some allCandidates \<Rightarrow>
          if allCandidates = [] then None
          else (let limitedResults = slice0 (Some defaultLimit) (filter (\<lambda>candidate.
                        list_ex (field_matches (normalizeForSearch jobTitle))
                          [skills_text (skills candidate), or_empty (experience candidate),
                           or_empty (resume_text candidate), or_empty (name candidate)]) allCandidates)
                in if limitedResults = [] then None
                   else Some \<lparr>res_type = ''candidates_by_job_title'', res_data = Candidates limitedResults\<rparr>))"

definition title_jobs :: "env \<Rightarrow> string \<Rightarrow> int \<Rightarrow> search_result option" where
  "title_jobs e jobTitle defaultLimit =
     (case store e jobs_sample_query of
        None \<Rightarrow> None
      | Some allJobs \<Rightarrow>
          if allJobs = [] then None
          else (let limitedJobs = slice0 (Some defaultLimit) (filter (\<lambda>job.
                        list_ex (\<lambda>field. str_includes (normalizeForSearch field) (normalizeForSearch jobTitle))
                          [or_empty (title job), skills_text (skills job), or_empty (description job)]) allJobs)
                in if limitedJobs = [] then None
                   else Some \<lparr>res_type = ''jobs_by_title'', res_data = Jobs limitedJobs\<rparr>))"

definition title_strategy :: "env \<Rightarrow> string \<Rightarrow> int \<Rightarrow> attempt" where
  "title_strategy e query defaultLimit =
     (case extractJobTitle query of
        None \<Rightarrow> skip
      | Some jobTitle \<Rightarrow>
          if jobTitle = [] then skip
          else attempts [([sample_query], title_candidates e jobTitle defaultLimit),
                         ([jobs_sample_query], title_jobs e jobTitle defaultLimit)])"

text \<open>The status search. The keys of \<open>statusKeywords\<close> are visited in the order in which
  they are written.\<close>

definition statusKeywords :: "(string \<times> string list) list" where
  "statusKeywords =
    [(''screening'', [''screening'', ''reviewing'', ''in review'']),
     (''selected'', [''selected'', ''hired'', ''accepted'', ''passed'', ''succeeded'']),
     (''rejected'', [''rejected'', ''declined'', ''failed'', ''not selected'']),
     (''interview'', [''interview'', ''interviewing'', ''scheduled'']),
     (''offered'', [''offered'', ''offer'', ''offer stage''])]"

definition matchedStatusKey :: "string \<Rightarrow> string option" where
  "matchedStatusKey lowerQuery =
     map_option fst (find (\<lambda>entry. list_ex (\<lambda>kw. str_includes lowerQuery kw) (snd entry)) statusKeywords)"

definition status_column :: "string \<Rightarrow> string" where
  "status_column key = (if key \<in> set [''screening'', ''offered''] then ''status'' else ''interview_result'')"

text \<open>\<open>key.charAt(0).toUpperCase() + key.slice(1)\<close>\<close>

definition capitalize :: "string \<Rightarrow> string" where
  "capitalize key = toUpperCase (take 1 key) @ drop 1 key"

definition status_query :: "string \<Rightarrow> int \<Rightarrow> db_query option" where
  "status_query lowerQuery defaultLimit =
     (case matchedStatusKey lowerQuery of
        None \<Rightarrow> None
      | Some key \<Rightarrow>
          if key = [] then None
          else Some (with_limit defaultLimit (with_filter (Eq (status_column key) (capitalize key)) candidates_table)))"

definition status_strategy :: "env \<Rightarrow> string \<Rightarrow> int \<Rightarrow> attempt" where
  "status_strategy e lowerQuery defaultLimit =
     (case status_query lowerQuery defaultLimit of
        None \<Rightarrow> skip
      | Some q \<Rightarrow> ([q], found ''candidates_by_status'' Candidates (store e q)))"

definition locations :: "string list" where
  "locations = [''bangalore'', ''bengaluru'', ''chennai'', ''hyderabad'', ''pune'', ''mumbai'', ''delhi'', ''coimbatore'']"

definition location_strategy :: "env \<Rightarrow> string \<Rightarrow> int \<Rightarrow> attempt" where
  "location_strategy e lowerQuery defaultLimit =
     (case find (\<lambda>loc. str_includes lowerQuery loc) locations of
        None \<Rightarrow> skip
      | Some matchedLocation \<Rightarrow>
          if matchedLocation = [] then skip
          else (let q = with_limit defaultLimit
                          (with_filter (Ilike ''location'' (''%'' @ matchedLocation @ ''%'')) candidates_table)
                in ([q], found ''candidates_by_location'' Candidates (store e q))))"

definition client_strategy :: "env \<Rightarrow> string \<Rightarrow> int \<Rightarrow> attempt" where
  "client_strategy e lowerQuery defaultLimit =
     (if str_includes lowerQuery ''client''
      then (let wantsActive = str_includes lowerQuery ''active'';
                wantsAll = (str_includes lowerQuery ''all'' \<or> str_includes lowerQuery ''every'');
                clientLimit = (if wantsAll then 100 else defaultLimit);
                clientQuery = with_limit clientLimit
                  (if wantsActive then with_filter (Eq ''status'' ''Active'') (select_all ''hr_clients'')
                   else select_all ''hr_clients'');
                contactQuery = with_limit clientLimit (select_all ''hr_client_contacts'')
            in ([clientQuery, contactQuery],
                case store e clientQuery of
                  None \<Rightarrow> None
                | Some clients \<Rightarrow>
                    if clients = [] then None
                    else Some \<lparr>res_type = ''clients_and_contacts'',
                               res_data = Clients clients (store e contactQuery)
                                            (if wantsActive then ''active_only'' else ''all'')\<rparr>))
      else skip)"

definition jobKeywords :: "string list" where
  "jobKeywords = [''job'', ''position'', ''opening'', ''vacancy'', ''role'']"

definition job_strategy :: "env \<Rightarrow> string \<Rightarrow> int \<Rightarrow> attempt" where
  "job_strategy e lowerQuery defaultLimit =
     (if list_ex (\<lambda>kw. str_includes lowerQuery kw) jobKeywords
      then (let jobQuery = with_limit defaultLimit
                  (if str_includes lowerQuery ''active'' \<or> str_includes lowerQuery ''open''
                   then with_filter (Eq ''status'' ''Active'') (select_all ''hr_jobs'')
                   else select_all ''hr_jobs'')
            in ([jobQuery], found ''jobs'' Jobs (store e jobQuery)))
      else skip)"

definition status_types_strategy :: "env \<Rightarrow> string \<Rightarrow> attempt" where
  "status_types_strategy e lowerQuery =
     (if str_includes lowerQuery ''status''
         \<and> (str_includes lowerQuery ''type'' \<or> str_includes lowerQuery ''list'' \<or> str_includes lowerQuery ''available'')
      then (let q = with_order ''display_order'' True None (select_all ''job_statuses'')
            in ([q], found ''job_statuses'' Statuses (store e q)))
      else skip)"

text \<open>
  The catch-all search. At least 70 percent of the search words must be found in a field;
  the product with \<open>0.7\<close> is taken exactly, which decides the comparison with a whole number
  as the floating-point product does. The survivors are sorted by score, highest first,
  by a stable sort.
\<close>

definition broad_field_matches :: "string \<Rightarrow> string \<Rightarrow> bool" where
  "broad_field_matches searchNormalized field =
     (let normalized = normalizeForSearch field
      in str_includes normalized searchNormalized \<or>
         (let searchWords = split_space searchNormalized;
              matchedWords = filter (\<lambda>word. str_includes normalized word \<or>
                  list_ex (\<lambda>fw. js_gt (calculateSimilarity fw word) (75 / 100)) (split_space normalized)) searchWords
          in (of_nat (length matchedWords) :: rat) \<ge> of_nat (length searchWords) * (7 / 10)))"

definition score_or_zero :: "row \<Rightarrow> rat" where
  "score_or_zero c = (case overall_score c of None \<Rightarrow> 0 | Some x \<Rightarrow> x)"

definition sort_by_score :: "row list \<Rightarrow> row list" where
  "sort_by_score rows = sort_key (\<lambda>c. - score_or_zero c) rows"

definition catchAllStopWords :: "string list" where
  "catchAllStopWords = [''the'', ''show'', ''find'', ''list'', ''give'', ''get'', ''me'', ''all'']"

definition catch_all_strategy :: "env \<Rightarrow> string \<Rightarrow> int \<Rightarrow> attempt" where
  "catch_all_strategy e lowerQuery defaultLimit =
     (let searchTerms = join_space (filter (\<lambda>word. length word > 2 \<and> word \<notin> set catchAllStopWords)
                                          (split_space lowerQuery))
      in if length searchTerms > 3
         then ([sample_query],
               case store e sample_query of
                 None \<Rightarrow> None
               | Some allCandidates \<Rightarrow>
                   if allCandidates = [] then None
                   else (let matchedCandidates = filter (\<lambda>candidate.
                                 list_ex (broad_field_matches (normalizeForSearch searchTerms))
                                   [skills_text (skills candidate), or_empty (experience candidate),
                                    or_empty (resume_text candidate)]) allCandidates;
                             sortedResults = slice0 (Some defaultLimit) (sort_by_score matchedCandidates)
                         in if sortedResults = [] then None
                            else Some \<lparr>res_type = ''candidates_broad_search'',
                                       res_data = Broad sortedResults searchTerms\<rparr>))
         else skip)"

text \<open>The name search, the last strategy: four reads, each tried only when the one before
  found nothing.\<close>

definition stopWords :: "string list" where
  "stopWords = [''can'', ''get'', ''give'', ''details'', ''of'', ''about'', ''show'', ''find'', ''the'', ''list'',
     ''all'', ''are'', ''who'', ''hi'', ''applied'', ''date'', ''when'', ''top'', ''best'']"

definition potential_name :: "string \<Rightarrow> string" where
  "potential_name lowerQuery =
     trim (join_space (filter (\<lambda>word. word \<notin> set stopWords \<and> length word \<ge> 2) (split_space lowerQuery)))"

definition name_phrase_query :: "string \<Rightarrow> db_query" where
  "name_phrase_query potentialName = with_filter (Ilike ''name'' (''%'' @ potentialName @ ''%'')) candidates_table"

definition name_and_query :: "string list \<Rightarrow> db_query" where
  "name_and_query keywords =
     with_limit 10 (foldl (\<lambda>candidateQuery kw. with_filter (Ilike ''name'' (''%'' @ kw @ ''%'')) candidateQuery)
                          candidates_table keywords)"

definition name_or_query :: "string list \<Rightarrow> db_query" where
  "name_or_query keywords =
     with_limit 10 (with_filter (Or (join_with '','' (map (\<lambda>kw. ''name.ilike.%'' @ kw @ ''%'') keywords)))
                      candidates_table)"

definition last_resort_query :: "string \<Rightarrow> int \<Rightarrow> db_query" where
  "last_resort_query potentialName defaultLimit =
     with_limit defaultLimit (with_filter
       (Or (''skills.ilike.%'' @ potentialName @ ''%,experience.ilike.%'' @ potentialName
            @ ''%,resume_text.ilike.%'' @ potentialName @ ''%'')) candidates_table)"

definition name_strategy :: "env \<Rightarrow> string \<Rightarrow> int \<Rightarrow> attempt" where
  "name_strategy e lowerQuery defaultLimit =
     (let potentialName = potential_name lowerQuery;
          keywords = split_space potentialName
      in if potentialName = [] then skip
         else attempts
           [([name_phrase_query potentialName],
             found ''candidate_by_name_phrase'' Candidates (store e (name_phrase_query potentialName))),
            ([name_and_query keywords],
             found ''candidate_by_name_keywords_and'' Candidates (store e (name_and_query keywords))),
            ([name_or_query keywords],
             found ''candidate_by_name_keywords_or'' Candidates (store e (name_or_query keywords))),
            ([last_resort_query potentialName defaultLimit],
             found ''candidates_broad_search'' (\<lambda>rows. Broad rows potentialName)
               (store e (last_resort_query potentialName defaultLimit)))])"

text \<open>
  \<open>smartSearch\<close>: the reads issued, in order, and the result. No operation of the body
  throws (a failed read answers with \<open>data\<close> \<open>null\<close>), so the \<open>catch\<close> branch with its
  result of type \<open>error\<close> is not reached.
\<close>

definition strategies :: "env \<Rightarrow> string \<Rightarrow> message list \<Rightarrow> int option \<Rightarrow> attempt list" where
  "strategies e query conversationHistory requestedLimit =
     (let lowerQuery = toLowerCase query;
          defaultLimit = default_limit requestedLimit
      in [top_of_strategy e query defaultLimit,
          top_strategy e query lowerQuery defaultLimit,
          all_strategy e query lowerQuery defaultLimit,
          followup_strategy e query lowerQuery conversationHistory,
          email_strategy e query,
          phone_strategy e query,
          jobid_strategy e query,
          semantic_strategy e query,
          experience_strategy e query,
          score_strategy e query defaultLimit,
          salary_strategy e query defaultLimit,
          skill_strategy e query defaultLimit,
          title_strategy e query defaultLimit,
          status_strategy e lowerQuery defaultLimit,
          location_strategy e lowerQuery defaultLimit,
          client_strategy e lowerQuery defaultLimit,
          job_strategy e lowerQuery defaultLimit,
          status_types_strategy e lowerQuery,
          catch_all_strategy e lowerQuery defaultLimit,
          name_strategy e lowerQuery defaultLimit])"

definition no_results :: search_result where
  "no_results = \<lparr>res_type = ''no_results'', res_data = No_data\<rparr>"

definition smartSearch :: "env \<Rightarrow> string \<Rightarrow> message list \<Rightarrow> int option \<Rightarrow> db_query list \<times> search_result" where
  "smartSearch e query conversationHistory requestedLimit =
     (case attempts (strategies e query conversationHistory requestedLimit) of
        (reads, Some result) \<Rightarrow> (reads, result)
      | (reads, None) \<Rightarrow> (reads, no_results))"

section \<open>Chat message handler\<close>

text \<open>
  The collaborators of one call of \<open>sendMessage\<close>, beyond those of the router:
  the statistics that \<open>getStats\<close> reads from the store (it catches every failure), the
  index that \<open>Math.floor(Math.random() * 3)\<close> draws, the text-generation interface, the
  clock at the cache lookup and at the cache store, the vector-match procedure for job
  descriptions, the two aggregation procedures, the read of a single row, the stored
  embedding of a candidate, and the extraction of the skills from the generated criteria
  (\<open>JSON.parse\<close>). The text-generation interface may answer differently in two calls: each
  call has collaborators of its own.
\<close>

record stats =
  totalJobs :: int
  totalCandidates :: int
  totalClients :: int
  totalContacts :: int
  totalStatuses :: int
  averageCandidateScore :: rat
  screening :: int
  selected :: int
  rejected :: int

record jd_match =
  candidate_name :: string
  candidate_email :: string
  similarity :: "rat option"
  match_score :: "rat option"

datatype rpc_result = Rpc_data string | Rpc_error string

record report_data =
  summary_report :: "string option"
  top_jobs_by_applications :: "string option"
  candidate_pipeline_distribution :: "string option"

text \<open>A system prompt is kept as the values that the template of \<open>generateSystemPrompt\<close>
  prints: the query type, the statistics, the last six turns, the search result, the
  requested count.\<close>

record system_prompt =
  prompt_type :: query_type
  prompt_stats :: stats
  conversationContext :: "message list"
  searchContext :: "search_result option"
  countInstruction :: "int option"

datatype api_request =
    Extraction_prompt string
  | Ranking_prompt string "row list"
  | Report_prompt report_data
  | Chat_prompt system_prompt string

text \<open>The answer of the text-generation interface: the generated text, or a response that
  is not \<open>ok\<close>, with the message of the upstream error.\<close>

datatype api_result = Api_ok string | Api_not_ok string

record chat_env =
  search_env :: env
  getStats :: stats
  random_index :: nat
  completion :: "api_request \<Rightarrow> api_result"
  time_at_lookup :: int
  time_at_store :: int
  match_candidates_to_job :: "rat list \<Rightarrow> rat \<Rightarrow> int \<Rightarrow> jd_match list option"
  rpc_top_jobs :: rpc_result
  rpc_status_distribution :: rpc_result
  single_row :: "db_query \<Rightarrow> row option"
  stored_embedding :: "string \<Rightarrow> rat list option"
  criteria_skills :: "string \<Rightarrow> string + string list"

text \<open>
  A reply is kept as the template that produced it and the values it prints. The text of
  a cached reply and of a generated answer is the string itself.
\<close>

datatype reply_text =
    Greeting_text nat stats
  | Similar_candidates "string option" "row list"
  | JD_match_list "jd_match list"
  | JD_no_match
  | JD_ranking string
  | JD_error string
  | Analytics_report string
  | Analytics_error string
  | Answer string

datatype chat_response = Plain reply_text | Clarify string

text \<open>The module state: the response cache, and the number of requests sent to the
  text-generation interface so far.\<close>

record cache_entry =
  response :: string
  timestamp :: int

record chat_state =
  cache :: "string \<rightharpoonup> cache_entry"
  api_calls :: nat

definition CACHE_TTL :: int where
  "CACHE_TTL = 5 * 60 * 1000"

text \<open>\<open>EmbeddingService.matchCandidatesToJD\<close> and \<open>EmbeddingService.findSimilarCandidates\<close>\<close>

definition matchCandidatesToJD :: "chat_env \<Rightarrow> string \<Rightarrow> int \<Rightarrow> rat \<Rightarrow> jd_match list" where
  "matchCandidatesToJD e jdText match_count threshold =
     (case generateEmbedding (search_env e) jdText of
        None \<Rightarrow> []
      | Some embedding \<Rightarrow>
          (case match_candidates_to_job e embedding threshold match_count of
             None \<Rightarrow> []
           | Some data \<Rightarrow> data))"

definition findSimilarCandidates :: "chat_env \<Rightarrow> string \<Rightarrow> nat \<Rightarrow> row list" where
  "findSimilarCandidates e candidateId match_count =
     (case stored_embedding e candidateId of
        None \<Rightarrow> []
      | Some embedding \<Rightarrow>
          (let similarIds = (case match_candidates (search_env e) embedding (7 / 10) (int match_count + 1) of
                               None \<Rightarrow> []
                             | Some data \<Rightarrow> take match_count (map fst (filter (\<lambda>d. fst d \<noteq> candidateId) data)))
           in if similarIds = [] then []
              else (case store (search_env e) (with_filter (In_ids similarIds) candidates_table) of
                      None \<Rightarrow> []
                    | Some candidates \<Rightarrow> candidates)))"

text \<open>\<open>getRankedCandidatesFromJD\<close>: the reply and the number of requests sent to the
  text-generation interface. Every failure inside is caught and reported in the reply.\<close>

definition getRankedCandidatesFromJD :: "chat_env \<Rightarrow> string \<Rightarrow> reply_text \<times> nat" where
  "getRankedCandidatesFromJD e jobDescription =
     (let ragMatches = matchCandidatesToJD e jobDescription 15 (75 / 100)
      in if ragMatches \<noteq> [] then (JD_match_list ragMatches, 0)
         else (case completion e (Extraction_prompt jobDescription) of
                 Api_not_ok msg \<Rightarrow> (JD_error ''AI extraction failed'', 1)
               | Api_ok rawContent \<Rightarrow>
                   (case criteria_skills e rawContent of
                      Inl msg \<Rightarrow> (JD_error msg, 1)
                    | Inr criteria \<Rightarrow>
                        (case store (search_env e) (with_limit 30 (with_filter
                                 (Or (join_with '','' (map (\<lambda>skill. ''skills.ilike.%'' @ skill @ ''%'') criteria)))
                                 candidates_table)) of
                           None \<Rightarrow> (JD_no_match, 1)
                         | Some candidates \<Rightarrow>
                             if candidates = [] then (JD_no_match, 1)
                             else (case completion e (Ranking_prompt jobDescription candidates) of
                                     Api_not_ok msg \<Rightarrow> (JD_error ''AI ranking failed'', 2)
                                   | Api_ok ranking \<Rightarrow> (JD_ranking ranking, 2))))))"

text \<open>\<open>getAnalyticsReport\<close>, likewise.\<close>

definition rpc_data :: "rpc_result \<Rightarrow> string option" where
  "rpc_data r = (case r of Rpc_data d \<Rightarrow> Some d | Rpc_error msg \<Rightarrow> None)"

definition report_request :: "report_data \<Rightarrow> chat_env \<Rightarrow> reply_text \<times> nat" where
  "report_request reportData e =
     (case completion e (Report_prompt reportData) of
        Api_not_ok msg \<Rightarrow> (Analytics_error ''Report generation failed'', 1)
      | Api_ok report \<Rightarrow> (Analytics_report report, 1))"

definition getAnalyticsReport :: "chat_env \<Rightarrow> string \<Rightarrow> reply_text \<times> nat" where
  "getAnalyticsReport e userQuery =
     (let wantsJobs = (str_includes userQuery ''top jobs'' \<or> str_includes userQuery ''most applications'');
          wantsPipeline = (str_includes userQuery ''pipeline'' \<or> str_includes userQuery ''candidate distribution'')
      in case (if wantsJobs then rpc_top_jobs e else Rpc_data []) of
           Rpc_error msg \<Rightarrow> (Analytics_error msg, 0)
         | Rpc_data jobData \<Rightarrow>
             (case (if wantsPipeline then rpc_status_distribution e else Rpc_data []) of
                Rpc_error msg \<Rightarrow> (Analytics_error msg, 0)
              | Rpc_data pipelineData \<Rightarrow>
                  if \<not> wantsJobs \<and> \<not> wantsPipeline
                  then report_request \<lparr>summary_report = Some ''General Recruitment Analytics'',
                         top_jobs_by_applications = rpc_data (rpc_top_jobs e),
                         candidate_pipeline_distribution = rpc_data (rpc_status_distribution e)\<rparr> e
                  else report_request \<lparr>summary_report = None,
                         top_jobs_by_applications = (if wantsJobs then Some jobData else None),
                         candidate_pipeline_distribution = (if wantsPipeline then Some pipelineData else None)\<rparr> e))"

text \<open>
  The handler for "similar candidates to X" and "candidates like X": a reply when the
  named candidate is found and has similar candidates, and nothing otherwise.
  \<open>formatSimilarCandidatesResponse\<close> takes \<open>(candidate.skills || '').substring(0, 100)\<close>, which
  throws when \<open>skills\<close> is an array; the handler catches the error and gives no reply.
\<close>

definition format_throws :: "row list \<Rightarrow> bool" where
  "format_throws candidates =
     list_ex (\<lambda>candidate. case skills candidate of Array xs \<Rightarrow> True | Text t \<Rightarrow> False | Null \<Rightarrow> False)
             candidates"

definition similar_reply :: "chat_env \<Rightarrow> string \<Rightarrow> string \<Rightarrow> reply_text option" where
  "similar_reply e message lowerMessage =
     (if str_includes lowerMessage ''similar candidates to'' \<or> str_includes lowerMessage ''candidates like''
      then (case extractNameFromQuery message of
              None \<Rightarrow> None
            | Some candidateName \<Rightarrow>
                if candidateName = [] then None
                else (case single_row e (with_filter (Ilike ''name'' (''%'' @ candidateName @ ''%'')) candidates_table) of
                        None \<Rightarrow> None
                      | Some candidate \<Rightarrow>
                          (let similar = findSimilarCandidates e (row_id candidate) 5
                           in if similar \<noteq> [] \<and> \<not> format_throws similar
                              then Some (Similar_candidates (name candidate) similar) else None)))
      else None)"

definition isJD :: "string \<Rightarrow> string \<Rightarrow> bool" where
  "isJD message lowerMessage =
     (length message > 250 \<and>
        (str_includes lowerMessage ''responsibilities'' \<or> str_includes lowerMessage ''requirements''
         \<or> (str_includes lowerMessage ''skills'' \<and> str_includes lowerMessage ''experience'')))"

definition isAnalytics :: "string \<Rightarrow> bool" where
  "isAnalytics lowerMessage =
     (str_includes lowerMessage ''report'' \<or> str_includes lowerMessage ''analytics''
      \<or> str_includes lowerMessage ''distribution'' \<or> str_includes lowerMessage ''pipeline overview'')"

definition generateSystemPrompt ::
  "query_type \<Rightarrow> stats \<Rightarrow> search_result option \<Rightarrow> message list \<Rightarrow> int option \<Rightarrow> system_prompt" where
  "generateSystemPrompt queryType st searchResults conversationHistory requestedCount =
     \<lparr>prompt_type = queryType, prompt_stats = st,
      conversationContext = drop (length conversationHistory - 6) conversationHistory,
      searchContext = searchResults, countInstruction = requestedCount\<rparr>"

text \<open>The cache lookup: \<open>cached && Date.now() - cached.timestamp < CACHE_TTL &&
  conversationHistory.length === 0\<close>, for a recruitment query only.\<close>

definition cache_hit :: "chat_env \<Rightarrow> chat_state \<Rightarrow> query_type \<Rightarrow> string \<Rightarrow> message list \<Rightarrow> string option" where
  "cache_hit e st queryType cacheKey conversationHistory =
     (if queryType = Recruitment
      then (case cache st cacheKey of
              None \<Rightarrow> None
            | Some cached \<Rightarrow>
                if time_at_lookup e - timestamp cached < CACHE_TTL \<and> conversationHistory = []
                then Some (response cached) else None)
      else None)"

text \<open>The request to the text-generation interface for a message that no special handler
  and no cache entry answers: the search runs for a recruitment query only.\<close>

definition chat_request :: "chat_env \<Rightarrow> string \<Rightarrow> message list \<Rightarrow> api_request" where
  "chat_request e message conversationHistory =
     (let classification = classifyQuery message;
          requestedCount = extractRequestedCount message;
          searchResults =
            (if qtype classification = Recruitment
             then Some (snd (smartSearch (search_env e) message conversationHistory requestedCount))
             else None);
          systemPrompt = generateSystemPrompt (qtype classification) (getStats e) searchResults
                           conversationHistory requestedCount
      in Chat_prompt systemPrompt message)"

text \<open>
  \<open>sendMessage\<close>: the reply, or the message of the error that is thrown, and the state
  after the call. The parameter \<open>jobId\<close> is not used.
\<close>

definition sendMessage ::
  "chat_env \<Rightarrow> string \<Rightarrow> string \<Rightarrow> message list \<Rightarrow> chat_state \<Rightarrow> (string + chat_response) \<times> chat_state" where
  "sendMessage e message jobId conversationHistory st =
     (let lowerMessage = trim (toLowerCase message);
          classification = classifyQuery message
      in if qtype classification = Greeting
           then (Inr (Plain (Greeting_text (random_index e) (getStats e))), st)
         else if qtype classification = Unclear
           then (Inr (Clarify (capitalize (trim message))), st)
         else if isJD message lowerMessage
           then (let r = getRankedCandidatesFromJD e message
                 in (Inr (Plain (fst r)), st\<lparr>api_calls := api_calls st + snd r\<rparr>))
         else if isAnalytics lowerMessage
           then (let r = getAnalyticsReport e lowerMessage
                 in (Inr (Plain (fst r)), st\<lparr>api_calls := api_calls st + snd r\<rparr>))
         else (case similar_reply e message lowerMessage of
                 Some reply \<Rightarrow> (Inr (Plain reply), st)
               | None \<Rightarrow>
                   (case cache_hit e st (qtype classification) lowerMessage conversationHistory of
                      Some cached \<Rightarrow> (Inr (Plain (Answer cached)), st)
                    | None \<Rightarrow>
                        (let st1 = st\<lparr>api_calls := api_calls st + 1\<rparr>
                         in case completion e (chat_request e message conversationHistory) of
                              Api_not_ok msg \<Rightarrow> (Inl (''OpenAI: '' @ msg), st1)
                            | Api_ok answer \<Rightarrow>
                                (Inr (Plain (Answer answer)),
                                 if qtype classification = Recruitment \<and> conversationHistory = []
                                 then st1\<lparr>cache := (cache st1)(lowerMessage \<mapsto>
                                        \<lparr>response = answer, timestamp = time_at_store e\<rparr>)\<rparr>
                                 else st1)))))"

section \<open>The salary phrase in the words of the specification\<close>







section \<open>Example collaborators\<close>

text \<open>A store with one candidate, a store whose every read fails, and the collaborators
  of two calls of \<open>sendMessage\<close> whose text generation answers differently.\<close>

definition example_candidate :: row where
  "example_candidate = \<lparr>row_id = ''c1'', name = Some ''John Doe'', skills = Array [''Python'', ''AWS''],
     experience = None, resume_text = Some ''python developer john@example.com'',
     overall_score = Some 85, title = None, description = None\<rparr>"

definition example_env :: env where
  "example_env = \<lparr>store = (\<lambda>q. if q_table q = ''hr_job_candidates'' then Some [example_candidate] else None),
     embedding_api = (\<lambda>text. None), match_candidates = (\<lambda>v threshold n. None)\<rparr>"

definition failing_env :: env where
  "failing_env = \<lparr>store = (\<lambda>q. None), embedding_api = (\<lambda>text. None),
     match_candidates = (\<lambda>v threshold n. None)\<rparr>"

definition no_stats :: stats where
  "no_stats = \<lparr>totalJobs = 0, totalCandidates = 0, totalClients = 0, totalContacts = 0, totalStatuses = 0,
     averageCandidateScore = 0, screening = 0, selected = 0, rejected = 0\<rparr>"

definition first_call_env :: chat_env where
  "first_call_env = \<lparr>search_env = example_env, getStats = no_stats, random_index = 0,
     completion = (\<lambda>request. Api_ok ''first answer''), time_at_lookup = 1000, time_at_store = 2000,
     match_candidates_to_job = (\<lambda>v threshold n. None), rpc_top_jobs = Rpc_data [],
     rpc_status_distribution = Rpc_data [], single_row = (\<lambda>q. None), stored_embedding = (\<lambda>i. None),
     criteria_skills = (\<lambda>text. Inr [])\<rparr>"

definition second_call_env :: chat_env where
  "second_call_env = first_call_env\<lparr>completion := (\<lambda>request. Api_ok ''second answer''),
     time_at_lookup := 60000, time_at_store := 61000\<rparr>"

definition empty_state :: chat_state where
  "empty_state = \<lparr>cache = Map.empty, api_calls = 0\<rparr>"

section \<open>Properties of the string operations\<close>

lemma str_includes_iff: "str_includes s sub \<longleftrightarrow> (\<exists>pre post. s = pre @ sub @ post)"
proof (induction s)
  case Nil then show ?case by auto
next
  case (Cons c cs)
  have sw: "startsWith (c # cs) sub \<longleftrightarrow> (\<exists>post. c # cs = sub @ post)"
    unfolding startsWith_def by (metis append_eq_conv_conj)
  show ?case
  proof
    assume "str_includes (c # cs) sub"
    then consider "startsWith (c # cs) sub" | "str_includes cs sub" by auto
    then show "\<exists>pre post. c # cs = pre @ sub @ post"
    proof cases
      case 1 then show ?thesis using sw by (metis append_Nil)
    next
      case 2
      then obtain pre post where "cs = pre @ sub @ post" using Cons.IH by auto
      then have "c # cs = (c # pre) @ sub @ post" by simp
      then show ?thesis by blast
    qed
  next
    assume "\<exists>pre post. c # cs = pre @ sub @ post"
    then obtain pre post where e: "c # cs = pre @ sub @ post" by blast
    show "str_includes (c # cs) sub"
    proof (cases pre)
      case Nil
      with e have "\<exists>post. c # cs = sub @ post" by auto
      then have "startsWith (c # cs) sub" using sw by simp
      then show ?thesis by simp
    next
      case (Cons p ps)
      then have "cs = ps @ sub @ post" using e by simp
      then show ?thesis using Cons.IH by auto
    qed
  qed
qed

section \<open>Properties of the classifier\<close>

text \<open>
  Claim C1, as amended. \<open>classifyQuery("hello")\<close> is a greeting,
  \<open>classifyQuery("show me candidates with Python skills")\<close> is a recruitment query and
  \<open>classifyQuery("ok")\<close> is unclear. \<open>classifyQuery("what's the weather")\<close> is unclear too,
  not off-topic: the message has three words and no recruitment keyword, and a message
  of at most three words without a keyword is unclear. With a fourth word, as in
  "what's the weather today", the message is off-topic.
\<close>

theorem classifyQuery_examples:
  "qtype (classifyQuery ''hello'') = Greeting \<and>
   qtype (classifyQuery ''show me candidates with Python skills'') = Recruitment \<and>
   qtype (classifyQuery ''what's the weather'') = Unclear \<and>
   qtype (classifyQuery ''ok'') = Unclear \<and>
   qtype (classifyQuery ''what's the weather today'') = Off_topic"
  by code_simp

theorem classifyQuery_examples_witness:
  "length (split_space ''what's the weather'') = 3 \<and> qtype (classifyQuery ''what's the weather'') = Unclear"
  using classifyQuery_examples by (simp add: split_space_def)

text \<open>Claim C1 as stated fails: the classifier does not call "what's the weather" off-topic.\<close>

theorem classifyQuery_weather_counterexample:
  "qtype (classifyQuery ''what's the weather'') \<noteq> Off_topic"
  by code_simp

section \<open>Properties of the requested count\<close>

lemma count_from_range: "count_from ps q = Some n \<Longrightarrow> 1 \<le> n \<and> n \<le> 100"
  by (induction ps) (auto split: option.splits if_splits)

text \<open>
  Claim C5. For every query, \<open>extractRequestedCount\<close> returns nothing or a whole number
  from 1 to 100; for the query "top 500" it returns nothing.
\<close>

theorem extractRequestedCount_range:
  "(extractRequestedCount q = None \<or> (\<exists>n. extractRequestedCount q = Some n \<and> 1 \<le> n \<and> n \<le> 100))
   \<and> extractRequestedCount ''top 500'' = None"
proof
  show "extractRequestedCount q = None \<or> (\<exists>n. extractRequestedCount q = Some n \<and> 1 \<le> n \<and> n \<le> 100)"
  proof (cases "extractRequestedCount q")
    case None
    then show ?thesis by simp
  next
    case (Some n)
    then have "1 \<le> n \<and> n \<le> 100" unfolding extractRequestedCount_def by (rule count_from_range)
    with Some show ?thesis by simp
  qed
  show "extractRequestedCount ''top 500'' = None" by code_simp
qed

theorem extractRequestedCount_range_witness:
  "\<exists>n. extractRequestedCount ''give me 15 candidates'' = Some n \<and> 1 \<le> n \<and> n \<le> 100"
proof -
  have "extractRequestedCount ''give me 15 candidates'' = Some 15" by code_simp
  with extractRequestedCount_range [of "''give me 15 candidates''"] show ?thesis by simp
qed

section \<open>Properties of the similarity\<close>

lemma inter_len: "length (remdups (filter (\<lambda>x. x \<in> set (remdups b)) (remdups a))) = card (set a \<inter> set b)"
proof -
  have "set (filter (\<lambda>x. x \<in> set (remdups b)) (remdups a)) = set a \<inter> set b" by auto
  then show ?thesis by (simp add: length_remdups_card_conv del: remdups_filter)
qed

lemma union_len: "length (remdups (remdups a @ remdups b)) = card (set a \<union> set b)"
  by (simp add: length_remdups_card_conv)

text \<open>The division of \<open>calculateSimilarity\<close> is never a division by zero: the result is
  always a number.\<close>

lemma calculateSimilarity_defined: "\<exists>r. calculateSimilarity a b = Num r"
proof (cases "normalizeForSearch a = normalizeForSearch b")
  case True then show ?thesis by (simp add: calculateSimilarity_def)
next
  case False
  then have "set (normalizeForSearch a) \<union> set (normalizeForSearch b) \<noteq> {}" by auto
  then have "card (set (normalizeForSearch a) \<union> set (normalizeForSearch b)) \<noteq> 0" by simp
  then have "\<exists>r. js_div (card (set (normalizeForSearch a) \<inter> set (normalizeForSearch b)))
      (card (set (normalizeForSearch a) \<union> set (normalizeForSearch b))) = Num r"
    unfolding js_div_def by simp
  then show ?thesis
    unfolding calculateSimilarity_def Let_def inter_len union_len
    by (cases "str_includes (normalizeForSearch a) (normalizeForSearch b) \<or>
      str_includes (normalizeForSearch b) (normalizeForSearch a)") (simp_all only: if_True if_False False, blast+)
qed

text \<open>
  Claim C6. For every string \<open>s\<close>, \<open>calculateSimilarity(s, s)\<close> is 1; so is
  \<open>calculateSimilarity("", "")\<close>, where both character sets are empty: the function returns
  before it divides, and its result is neither \<open>NaN\<close> nor \<open>Infinity\<close>.
\<close>

theorem calculateSimilarity_self:
  "calculateSimilarity s s = Num 1 \<and> calculateSimilarity [] [] = Num 1
   \<and> calculateSimilarity [] [] \<noteq> NaN \<and> calculateSimilarity [] [] \<noteq> PosInfinity"
  by (simp add: calculateSimilarity_def)

theorem calculateSimilarity_self_witness:
  "calculateSimilarity ''Python 3'' ''Python 3'' = Num 1"
  using calculateSimilarity_self [of "''Python 3''"] by simp

text \<open>
  Claim C9. For every pair of strings \<open>a\<close> and \<open>b\<close>, \<open>calculateSimilarity(a, b)\<close> equals
  \<open>calculateSimilarity(b, a)\<close>.
\<close>

theorem calculateSimilarity_sym:
  "calculateSimilarity a b = calculateSimilarity b a"
proof -
  have i: "card (set (normalizeForSearch a) \<inter> set (normalizeForSearch b)) =
      card (set (normalizeForSearch b) \<inter> set (normalizeForSearch a))"
    by (simp add: Int_commute)
  have u: "card (set (normalizeForSearch a) \<union> set (normalizeForSearch b)) =
      card (set (normalizeForSearch b) \<union> set (normalizeForSearch a))"
    by (simp add: Un_commute)
  show ?thesis
    unfolding calculateSimilarity_def Let_def inter_len union_len
    using i u by auto
qed

theorem calculateSimilarity_sym_witness:
  "calculateSimilarity ''java'' ''ajax'' = Num (1 / 2) \<and> calculateSimilarity ''ajax'' ''java'' = Num (1 / 2)"
proof -
  have "calculateSimilarity ''java'' ''ajax'' = Num (1 / 2)" by code_simp
  with calculateSimilarity_sym [of "''ajax''" "''java''"] show ?thesis by simp
qed

section \<open>Properties of the matcher\<close>

lemma rest_of_simp [simp]: "rest_of (p, s, c) = s" by (simp add: rest_of_def)
lemma caps_of_simp [simp]: "caps_of (p, s, c) = c" by (simp add: caps_of_def)

lemma rmatch_Sat_mem:
  "st' \<in> set (rmatch (Sat P) st) \<longleftrightarrow> (\<exists>c cs. rest_of st = c # cs \<and> P c \<and> st' = (Some c, cs, caps_of st))"
  by (auto split: list.splits)

lemma star_iter_Suc_mem:
  "st' \<in> set (star_iter f (Suc n) st) \<longleftrightarrow>
     st' = st \<or> (\<exists>st1 \<in> set (f st). length (rest_of st1) < length (rest_of st) \<and> st' \<in> set (star_iter f n st1))"
  by (auto split: if_splits)

lemma star_sat_sound:
  "st' \<in> set (star_iter (rmatch (Sat P)) n st) \<Longrightarrow>
     \<exists>u. rest_of st = u @ rest_of st' \<and> list_all P u \<and> caps_of st' = caps_of st"
proof (induction n arbitrary: st)
  case 0
  then show ?case by simp
next
  case (Suc n)
  from Suc.prems consider "st' = st"
    | st1 where "st1 \<in> set (rmatch (Sat P) st)" "length (rest_of st1) < length (rest_of st)"
        "st' \<in> set (star_iter (rmatch (Sat P)) n st1)"
    unfolding star_iter_Suc_mem by blast
  then show ?case
  proof cases
    case 1 then show ?thesis by simp
  next
    case 2
    from 2(1) obtain c cs where c: "rest_of st = c # cs" "P c" "st1 = (Some c, cs, caps_of st)"
      unfolding rmatch_Sat_mem by blast
    from Suc.IH[OF 2(3)] obtain u where u: "rest_of st1 = u @ rest_of st'" "list_all P u" "caps_of st' = caps_of st1"
      by blast
    have "rest_of st = (c # u) @ rest_of st'" using c u by simp
    moreover have "list_all P (c # u)" using c u by simp
    moreover have "caps_of st' = caps_of st" using c u by simp
    ultimately show ?thesis by blast
  qed
qed




lemma rmatch_Seq_mem:
  "st' \<in> set (rmatch (Seq a b) st) \<longleftrightarrow> (\<exists>st1 \<in> set (rmatch a st). st' \<in> set (rmatch b st1))"
  by auto

lemma rmatch_Alt_mem:
  "st' \<in> set (rmatch (Alt a b) st) \<longleftrightarrow> st' \<in> set (rmatch a st) \<or> st' \<in> set (rmatch b st)"
  by auto





lemma rmatch_Grp_mem:
  "st' \<in> set (rmatch (Grp i a) st) \<longleftrightarrow>
     (\<exists>st1 \<in> set (rmatch a st). st' = (fst st1, rest_of st1,
         (i, take (length (rest_of st) - length (rest_of st1)) (rest_of st)) # caps_of st1))"
  by auto



lemma rmatch_Star_mem:
  "st' \<in> set (rmatch (Star a) st) \<longleftrightarrow> st' \<in> set (star_iter (rmatch a) (length (rest_of st)) st)"
  by simp

lemma plus_sat_sound:
  assumes "st' \<in> set (rmatch (Plus (Sat P)) st)"
  shows "\<exists>u. u \<noteq> [] \<and> rest_of st = u @ rest_of st' \<and> list_all P u \<and> caps_of st' = caps_of st"
proof -
  from assms obtain st0 where s: "st0 \<in> set (rmatch (Sat P) st)" "st' \<in> set (rmatch (Star (Sat P)) st0)"
    unfolding Plus_def rmatch_Seq_mem by blast
  from s(1) obtain c cs where c: "rest_of st = c # cs" "P c" "st0 = (Some c, cs, caps_of st)"
    unfolding rmatch_Sat_mem by blast
  from s(2) obtain u where u: "rest_of st0 = u @ rest_of st'" "list_all P u" "caps_of st' = caps_of st0"
    unfolding rmatch_Star_mem using star_sat_sound by blast
  have "c # u \<noteq> []" "rest_of st = (c # u) @ rest_of st'" "list_all P (c # u)" "caps_of st' = caps_of st"
    using c u by simp_all
  then show ?thesis by blast
qed





























section \<open>Properties of the router\<close>

lemma then_try_skip [simp]: "then_try skip b = b"
  by (simp add: then_try_def skip_def)

lemma then_try_Some [simp]: "then_try (reads, Some r) b = (reads, Some r)"
  by (simp add: then_try_def)

lemma then_try_None [simp]: "then_try (reads, None) b = (reads @ fst b, snd b)"
  by (simp add: then_try_def)

lemma attempts_none: "list_all (\<lambda>a. snd a = None) as \<Longrightarrow> snd (attempts as) = None"
  by (induction as) (auto simp: then_try_def skip_def)

lemma found_empty: "data = None \<or> data = Some [] \<Longrightarrow> found t mk data = None"
  by (auto simp: found_def)

lemma attempts_two_none: "snd a = None \<Longrightarrow> snd b = None \<Longrightarrow> snd (attempts [a, b]) = None"
  by (simp add: then_try_def skip_def)

lemma strategies_empty_store:
  assumes H: "\<forall>q. store e q = None \<or> store e q = Some []"
  shows "list_all (\<lambda>a. snd a = None) (strategies e query h r)"
proof -
  have F: "\<And>t mk q. found t mk (store e q) = None" using H found_empty by blast
  have S: "\<And>q rows. store e q = Some rows \<Longrightarrow> rows = []" using H by (metis option.inject option.distinct(1))
  have 1: "\<And>d. snd (top_of_strategy e query d) = None"
    by (auto simp: top_of_strategy_def skip_def Let_def split: option.splits dest: S)
  have 2: "\<And>l d. snd (top_strategy e query l d) = None"
    by (simp add: top_strategy_def skip_def Let_def F)
  have 3: "\<And>l d. snd (all_strategy e query l d) = None"
    by (simp add: all_strategy_def skip_def Let_def F)
  have 4: "\<And>l. snd (followup_strategy e query l h) = None"
    by (simp add: followup_strategy_def skip_def Let_def F split: option.splits)
  have 5: "snd (email_strategy e query) = None"
    by (simp add: email_strategy_def skip_def F split: option.splits)
  have 6: "snd (phone_strategy e query) = None"
    by (simp add: phone_strategy_def skip_def Let_def F split: option.splits)
  have 7: "snd (jobid_strategy e query) = None"
    by (simp add: jobid_strategy_def skip_def Let_def F split: option.splits)
  have "\<And>n t. snd (searchSimilarCandidates e query n t) = []"
    by (auto simp: searchSimilarCandidates_def Let_def split: option.splits dest: S)
  then have 8: "snd (semantic_strategy e query) = None"
    by (simp add: semantic_strategy_def skip_def Let_def)
  have 9: "snd (experience_strategy e query) = None"
    by (auto simp: experience_strategy_def skip_def Let_def split: option.splits dest: S)
  have 10: "\<And>d. snd (score_strategy e query d) = None"
    by (simp add: score_strategy_def skip_def Let_def F split: option.splits)
  have 11: "\<And>d. snd (salary_strategy e query d) = None"
    by (simp add: salary_strategy_def skip_def Let_def F split: option.splits)
  have 12: "\<And>d. snd (skill_strategy e query d) = None"
    by (auto simp: skill_strategy_def skip_def Let_def split: option.splits dest: S)
  have "\<And>t d. title_candidates e t d = None" "\<And>t d. title_jobs e t d = None"
    by (auto simp: title_candidates_def title_jobs_def Let_def split: option.splits dest: S)
  then have 13: "\<And>d. snd (title_strategy e query d) = None"
    by (simp add: title_strategy_def skip_def then_try_def split: option.splits)
  have 14: "\<And>l d. snd (status_strategy e l d) = None"
    by (simp add: status_strategy_def skip_def F split: option.splits)
  have 15: "\<And>l d. snd (location_strategy e l d) = None"
    by (simp add: location_strategy_def skip_def Let_def F split: option.splits)
  have 16: "\<And>l d. snd (client_strategy e l d) = None"
    by (auto simp: client_strategy_def skip_def Let_def split: option.splits dest: S)
  have 17: "\<And>l d. snd (job_strategy e l d) = None"
    by (simp add: job_strategy_def skip_def Let_def F)
  have 18: "\<And>l. snd (status_types_strategy e l) = None"
    by (simp add: status_types_strategy_def skip_def Let_def F)
  have 19: "\<And>l d. snd (catch_all_strategy e l d) = None"
    by (auto simp: catch_all_strategy_def skip_def Let_def split: option.splits dest: S)
  have 20: "\<And>l d. snd (name_strategy e l d) = None"
    by (simp add: name_strategy_def skip_def Let_def F then_try_def)
  show ?thesis
    unfolding strategies_def Let_def
    by (simp add: 1 2 3 4 5 6 7 8 9 10 11 12 13 14 15 16 17 18 19 20)
qed

lemma smartSearch_none:
  assumes "list_all (\<lambda>a. snd a = None) (strategies e query h r)"
  shows "snd (smartSearch e query h r) = \<lparr>res_type = ''no_results'', res_data = No_data\<rparr>"
proof -
  have "snd (attempts (strategies e query h r)) = None" using assms by (rule attempts_none)
  then show ?thesis unfolding smartSearch_def no_results_def
    by (cases "attempts (strategies e query h r)") simp
qed

text \<open>
  Claim C7. When no strategy of \<open>smartSearch\<close> yields data, the result is the marker of
  type \<open>no_results\<close>. This is so in particular when every read of the store fails or
  returns no rows: each strategy takes that as no data and the next one runs. The result
  is a value in every case: nothing in the body throws.
\<close>

theorem smartSearch_no_results:
  "(list_all (\<lambda>a. snd a = None) (strategies e query h r)
      \<longrightarrow> snd (smartSearch e query h r) = \<lparr>res_type = ''no_results'', res_data = No_data\<rparr>) \<and>
   ((\<forall>q. store e q = None \<or> store e q = Some [])
      \<longrightarrow> snd (smartSearch e query h r) = \<lparr>res_type = ''no_results'', res_data = No_data\<rparr>)"
  using smartSearch_none strategies_empty_store by blast

theorem smartSearch_no_results_witness:
  "(\<forall>q. store failing_env q = None \<or> store failing_env q = Some []) \<and>
   snd (smartSearch failing_env ''candidates with python'' [] None) = \<lparr>res_type = ''no_results'', res_data = No_data\<rparr>"
proof -
  have "\<forall>q. store failing_env q = None \<or> store failing_env q = Some []" by (simp add: failing_env_def)
  with smartSearch_no_results [of failing_env "''candidates with python''" "[]" None] show ?thesis by blast
qed

lemma star_iter_length:
  assumes f: "\<And>st st'. st' \<in> set (f st) \<Longrightarrow> length (rest_of st') \<le> length (rest_of st)"
  shows "st' \<in> set (star_iter f n st) \<Longrightarrow> length (rest_of st') \<le> length (rest_of st)"
proof (induction n arbitrary: st)
  case 0
  then show ?case by simp
next
  case (Suc n)
  from Suc.prems consider "st' = st"
    | st1 where "st1 \<in> set (f st)" "st' \<in> set (star_iter f n st1)"
    unfolding star_iter_Suc_mem by blast
  then show ?case
  proof cases
    case 1 then show ?thesis by simp
  next
    case 2
    from Suc.IH[OF 2(2)] f[OF 2(1)] show ?thesis by simp
  qed
qed

lemma rmatch_length:
  "st' \<in> set (rmatch r st) \<Longrightarrow> length (rest_of st') \<le> length (rest_of st)"
proof (induction r arbitrary: st st')
  case Eps
  then show ?case by simp
next
  case (Sat P)
  then show ?case unfolding rmatch_Sat_mem by auto
next
  case (Seq a b)
  from Seq.prems obtain st1 where "st1 \<in> set (rmatch a st)" "st' \<in> set (rmatch b st1)"
    unfolding rmatch_Seq_mem by blast
  then show ?case using Seq.IH by (meson le_trans)
next
  case (Alt a b)
  then show ?case unfolding rmatch_Alt_mem by blast
next
  case (Star a)
  from Star.prems have "st' \<in> set (star_iter (rmatch a) (length (rest_of st)) st)" by simp
  then show ?case using star_iter_length[of "rmatch a"] Star.IH by blast
next
  case (Grp i a)
  from Grp.prems obtain st1 where "st1 \<in> set (rmatch a st)" "rest_of st' = rest_of st1"
    unfolding rmatch_Grp_mem by auto
  then show ?case using Grp.IH by simp
next
  case WordB
  then show ?case by (simp split: if_splits)
next
  case EndA
  then show ?case by (simp split: if_splits)
qed

lemma search_from_matched:
  assumes "search_from r p s = Some m"
    and "\<And>st st'. st' \<in> set (rmatch r st) \<Longrightarrow> length (rest_of st') < length (rest_of st)"
  shows "matched m \<noteq> []"
  using assms(1)
proof (induction s arbitrary: p)
  case Nil
  show ?case
  proof (cases "rmatch r (p, [], [])")
    case Nil
    with \<open>search_from r p [] = Some m\<close> show ?thesis by (subst (asm) search_from.simps) simp
  next
    case (Cons st' sts)
    then have "st' \<in> set (rmatch r (p, [], []))" by simp
    from assms(2)[OF this] show ?thesis by simp
  qed
next
  case (Cons c cs)
  show ?case
  proof (cases "rmatch r (p, c # cs, [])")
    case Nil
    with Cons.prems have "search_from r (Some c) cs = Some m" by (subst (asm) search_from.simps) simp
    then show ?thesis by (rule Cons.IH)
  next
    case (Cons st' sts)
    then have "st' \<in> set (rmatch r (p, c # cs, []))" by simp
    from assms(2)[OF this] have l: "length (rest_of st') < length (c # cs)" by simp
    from Cons Cons.prems have "matched m = take (length (c # cs) - length (rest_of st')) (c # cs)"
      by (subst (asm) search_from.simps) auto
    then show ?thesis using l by simp
  qed
qed

lemma emailPattern_consumes:
  assumes "st' \<in> set (rmatch emailPattern st)"
  shows "length (rest_of st') < length (rest_of st)"
proof -
  from assms obtain st1 where s: "st1 \<in> set (rmatch (Plus (Sat email_char)) st)"
     "st' \<in> set (rmatch (Seqs [Chr CHR ''@'', Plus (Sat email_char), Chr CHR ''.'', Plus Word]) st1)"
    unfolding emailPattern_def Seqs.simps(3) rmatch_Seq_mem by blast
  from plus_sat_sound[OF s(1)] have "length (rest_of st1) < length (rest_of st)" by auto
  with rmatch_length[OF s(2)] show ?thesis by simp
qed

lemma extractEmail_nonempty: "extractEmail query = Some email \<Longrightarrow> email \<noteq> []"
  unfolding extractEmail_def rx_match_def
  using search_from_matched[where r = emailPattern, OF _ emailPattern_consumes]
  by (auto split: option.splits)


lemma smartSearch_fst: "fst (smartSearch e query h r) = fst (attempts (strategies e query h r))"
  unfolding smartSearch_def by (auto split: prod.splits option.splits)

lemma smartSearch_snd:
  "snd (smartSearch e query h r) =
     (case snd (attempts (strategies e query h r)) of Some result \<Rightarrow> result | None \<Rightarrow> no_results)"
  unfolding smartSearch_def by (auto split: prod.splits option.splits)

lemma top_of_strategy_cases:
  "top_of_strategy e query d = ([], None) \<or> top_of_strategy e query d = ([top_of_query], None)
   \<or> (\<exists>res. top_of_strategy e query d = ([top_of_query], Some res) \<and> res_type res = ''top_candidates_for_skill'')"
  by (auto simp: top_of_strategy_def skip_def Let_def split: option.splits)

lemma sample_not_top: "sample_query \<noteq> top_of_query"
  by (simp add: sample_query_def top_of_query_def with_limit_def with_order_def with_filter_def
      candidates_table_def select_all_def)

lemma sample_not_email: "sample_query \<noteq> email_query email"
  by (simp add: sample_query_def email_query_def with_limit_def with_filter_def candidates_table_def select_all_def)

lemma email_guards:
  assumes "extractEmail query = Some email"
  shows "top_strategy e query l d = skip" "all_strategy e query l d = skip" "followup_strategy e query l h = skip"
  using assms by (simp_all add: top_strategy_def all_strategy_def followup_strategy_def no_filters_def Let_def)

lemma attempts_with_email:
  assumes "extractEmail query = Some email"
  shows "attempts (strategies e query h r) =
     then_try (top_of_strategy e query (default_limit r))
       (then_try ([email_query email], found ''candidate_full_details'' Candidates (store e (email_query email)))
          (attempts (drop 5 (strategies e query h r))))"
proof -
  have ne: "email \<noteq> []" using assms by (rule extractEmail_nonempty)
  have em: "email_strategy e query =
      ([email_query email], found ''candidate_full_details'' Candidates (store e (email_query email)))"
    using assms ne by (simp add: email_strategy_def)
  show ?thesis
    unfolding strategies_def Let_def
    by (simp add: email_guards[OF assms] em del: then_try_None then_try_Some)
qed

text \<open>
  Claim C2, as amended. Take a query with an email-shaped substring, with or without a
  skill keyword. The strategy "top N of X" runs first. If it returns a result (of type
  \<open>top_candidates_for_skill\<close>), that is the result of \<open>smartSearch\<close>, and neither the email
  lookup nor the skill search is issued. If it returns none, the exact-email lookup is
  issued before any fetch of the skill search; and if the lookup returns rows, the result
  is the email strategy's, of type \<open>candidate_full_details\<close> with these rows, and the email
  lookup is the last read. Whenever the email lookup would return rows, the fetch of the
  skill search is never issued and the result is never the skill strategy's.
\<close>

theorem smartSearch_email_first:
  assumes "extractEmail query = Some email"
  shows "(snd (top_of_strategy e query (default_limit r)) = None \<longrightarrow>
            (\<exists>pre post. fst (smartSearch e query h r) = pre @ email_query email # post \<and> sample_query \<notin> set pre))
     \<and> (store e (email_query email) = Some rows \<and> rows \<noteq> [] \<and> snd (top_of_strategy e query (default_limit r)) = None \<longrightarrow>
            smartSearch e query h r =
              (fst (top_of_strategy e query (default_limit r)) @ [email_query email],
               \<lparr>res_type = ''candidate_full_details'', res_data = Candidates rows\<rparr>))
     \<and> (\<forall>res. snd (top_of_strategy e query (default_limit r)) = Some res \<longrightarrow>
            smartSearch e query h r = ([top_of_query], res) \<and> res_type res = ''top_candidates_for_skill'')
     \<and> (store e (email_query email) = Some rows \<and> rows \<noteq> [] \<longrightarrow>
            sample_query \<notin> set (fst (smartSearch e query h r))
            \<and> res_type (snd (smartSearch e query h r)) \<noteq> ''candidates_by_skill'')"
proof -
  let ?top = "top_of_strategy e query (default_limit r)"
  let ?em = "([email_query email], found ''candidate_full_details'' Candidates (store e (email_query email)))"
  let ?rest = "attempts (drop 5 (strategies e query h r))"
  note A = attempts_with_email[OF assms, of e h r]
  have topfst: "sample_query \<notin> set (fst ?top)"
    using top_of_strategy_cases[of e query "default_limit r"] sample_not_top by auto
  have 1: "snd ?top = None \<longrightarrow>
      (\<exists>pre post. fst (smartSearch e query h r) = pre @ email_query email # post \<and> sample_query \<notin> set pre)"
  proof
    assume n: "snd ?top = None"
    then have "fst (attempts (strategies e query h r)) = fst ?top @ email_query email # fst (then_try ([], snd ?em) ?rest)"
      unfolding A by (cases ?top) (auto simp: then_try_def split: option.splits)
    then show "\<exists>pre post. fst (smartSearch e query h r) = pre @ email_query email # post \<and> sample_query \<notin> set pre"
      unfolding smartSearch_fst using topfst by blast
  qed
  have 2: "store e (email_query email) = Some rows \<and> rows \<noteq> [] \<and> snd ?top = None \<longrightarrow>
      smartSearch e query h r = (fst ?top @ [email_query email],
        \<lparr>res_type = ''candidate_full_details'', res_data = Candidates rows\<rparr>)"
  proof
    assume h2: "store e (email_query email) = Some rows \<and> rows \<noteq> [] \<and> snd ?top = None"
    then have "attempts (strategies e query h r) = (fst ?top @ [email_query email],
        Some \<lparr>res_type = ''candidate_full_details'', res_data = Candidates rows\<rparr>)"
      unfolding A by (cases ?top) (auto simp: then_try_def found_def)
    then show "smartSearch e query h r = (fst ?top @ [email_query email],
        \<lparr>res_type = ''candidate_full_details'', res_data = Candidates rows\<rparr>)"
      unfolding smartSearch_def by simp
  qed
  have 3: "\<forall>res. snd ?top = Some res \<longrightarrow>
      smartSearch e query h r = ([top_of_query], res) \<and> res_type res = ''top_candidates_for_skill''"
  proof (intro allI impI)
    fix res assume s: "snd ?top = Some res"
    with top_of_strategy_cases[of e query "default_limit r"]
    have t: "?top = ([top_of_query], Some res)" "res_type res = ''top_candidates_for_skill''" by auto
    have "attempts (strategies e query h r) = ([top_of_query], Some res)" unfolding A t(1) by simp
    then show "smartSearch e query h r = ([top_of_query], res) \<and> res_type res = ''top_candidates_for_skill''"
      unfolding smartSearch_def using t(2) by simp
  qed
  have 4: "store e (email_query email) = Some rows \<and> rows \<noteq> [] \<longrightarrow>
      sample_query \<notin> set (fst (smartSearch e query h r)) \<and> res_type (snd (smartSearch e query h r)) \<noteq> ''candidates_by_skill''"
  proof
    assume h4: "store e (email_query email) = Some rows \<and> rows \<noteq> []"
    show "sample_query \<notin> set (fst (smartSearch e query h r)) \<and> res_type (snd (smartSearch e query h r)) \<noteq> ''candidates_by_skill''"
    proof (cases "snd ?top")
      case None
      with 2 h4 have "smartSearch e query h r = (fst ?top @ [email_query email],
        \<lparr>res_type = ''candidate_full_details'', res_data = Candidates rows\<rparr>)" by blast
      then show ?thesis using topfst sample_not_email by simp
    next
      case (Some res)
      with 3 have "smartSearch e query h r = ([top_of_query], res)" "res_type res = ''top_candidates_for_skill''" by blast+
      then show ?thesis using sample_not_top by simp
    qed
  qed
  from 1 2 3 4 show ?thesis by blast
qed

theorem smartSearch_email_first_witness:
  "extractEmail ''who has python? mail john@example.com'' = Some ''john@example.com'' \<and>
   extractSkill ''who has python? mail john@example.com'' = Some ''python'' \<and>
   store example_env (email_query ''john@example.com'') = Some [example_candidate] \<and>
   smartSearch example_env ''who has python? mail john@example.com'' [] None =
     ([email_query ''john@example.com''],
      \<lparr>res_type = ''candidate_full_details'', res_data = Candidates [example_candidate]\<rparr>)"
proof -
  have a: "extractEmail ''who has python? mail john@example.com'' = Some ''john@example.com''" by code_simp
  have b: "extractSkill ''who has python? mail john@example.com'' = Some ''python''" by code_simp
  have c: "store example_env (email_query ''john@example.com'') = Some [example_candidate]" by code_simp
  have d: "top_of_strategy example_env ''who has python? mail john@example.com'' (default_limit None) = ([], None)"
    by code_simp
  from smartSearch_email_first [OF a, where e = example_env and r = None and rows = "[example_candidate]" and h = "[]"] c d
  have "smartSearch example_env ''who has python? mail john@example.com'' [] None =
     ([email_query ''john@example.com''],
      \<lparr>res_type = ''candidate_full_details'', res_data = Candidates [example_candidate]\<rparr>)"
    by simp
  with a b c show ?thesis by simp
qed

text \<open>
  Claim C2 as stated fails. The query "find candidates with python john@example.com"
  holds an email and a skill keyword, and the email lookup would return the candidate;
  but the strategy "top N of X", which runs first, answers, and the email lookup is
  not issued.
\<close>

theorem smartSearch_email_counterexample:
  "extractEmail ''find candidates with python john@example.com'' = Some ''john@example.com'' \<and>
   extractSkill ''find candidates with python john@example.com'' = Some ''python'' \<and>
   store example_env (email_query ''john@example.com'') = Some [example_candidate] \<and>
   res_type (snd (smartSearch example_env ''find candidates with python john@example.com'' [] None))
     = ''top_candidates_for_skill'' \<and>
   email_query ''john@example.com'' \<notin> set (fst (smartSearch example_env ''find candidates with python john@example.com'' [] None))"
proof -
  let ?q = "''find candidates with python john@example.com''"
  have a: "extractEmail ?q = Some ''john@example.com''" by code_simp
  have b: "extractSkill ?q = Some ''python''" by code_simp
  have c: "store example_env (email_query ''john@example.com'') = Some [example_candidate]" by code_simp
  have d: "top_of_strategy example_env ?q (default_limit None) =
     ([top_of_query], Some \<lparr>res_type = ''top_candidates_for_skill'',
        res_data = Top_for [example_candidate] ''python john@example.com'' (Some 20)\<rparr>)"
    by code_simp
  have "attempts (strategies example_env ?q [] None) =
     ([top_of_query], Some \<lparr>res_type = ''top_candidates_for_skill'',
        res_data = Top_for [example_candidate] ''python john@example.com'' (Some 20)\<rparr>)"
    unfolding attempts_with_email[OF a] d by simp
  then have e: "smartSearch example_env ?q [] None =
     ([top_of_query], \<lparr>res_type = ''top_candidates_for_skill'',
        res_data = Top_for [example_candidate] ''python john@example.com'' (Some 20)\<rparr>)"
    unfolding smartSearch_def by simp
  have f: "email_query ''john@example.com'' \<noteq> top_of_query" by code_simp
  from a b c e f show ?thesis by simp
qed

lemma status_key_screening: "matchedStatusKey (toLowerCase ''who's in screening'') = Some ''screening''"
  by code_simp

lemma status_key_selected: "matchedStatusKey (toLowerCase ''selected candidates'') = Some ''selected''"
  by code_simp

lemma status_values:
  "status_column ''screening'' = ''status''" "capitalize ''screening'' = ''Screening''"
  "status_column ''selected'' = ''interview_result''" "capitalize ''selected'' = ''Selected''"
  by code_simp+

lemma status_query_screening:
  "status_query (toLowerCase ''who's in screening'') d =
     Some \<lparr>q_table = ''hr_job_candidates'', q_filters = [Eq ''status'' ''Screening''], q_order = None, q_limit = Some d\<rparr>"
  unfolding status_query_def status_key_screening
  by (simp add: status_values with_limit_def with_filter_def candidates_table_def select_all_def)

lemma status_query_selected:
  "status_query (toLowerCase ''selected candidates'') d =
     Some \<lparr>q_table = ''hr_job_candidates'', q_filters = [Eq ''interview_result'' ''Selected''], q_order = None, q_limit = Some d\<rparr>"
  unfolding status_query_def status_key_selected
  by (simp add: status_values with_limit_def with_filter_def candidates_table_def select_all_def)

lemma before_status_screening:
  "rx_match topCandidatesOfPattern ''who's in screening'' = None"
  "rx_test topCandidatesPattern (toLowerCase ''who's in screening'') = False"
  "rx_test allCandidatesPattern (toLowerCase ''who's in screening'') = False"
  "extractEmail ''who's in screening'' = None"
  "extractPhone ''who's in screening'' = None"
  "extractJobId ''who's in screening'' = None"
  "shouldUseSemanticSearch ''who's in screening'' = False"
  "extractExperience ''who's in screening'' = None"
  "extractScore ''who's in screening'' = None"
  "extractSalary ''who's in screening'' = None"
  "extractSkill ''who's in screening'' = None"
  "extractJobTitle ''who's in screening'' = None"
  by code_simp+

lemma before_status_selected:
  "rx_match topCandidatesOfPattern ''selected candidates'' = None"
  "rx_test topCandidatesPattern (toLowerCase ''selected candidates'') = False"
  "rx_test allCandidatesPattern (toLowerCase ''selected candidates'') = False"
  "extractEmail ''selected candidates'' = None"
  "extractPhone ''selected candidates'' = None"
  "extractJobId ''selected candidates'' = None"
  "shouldUseSemanticSearch ''selected candidates'' = False"
  "extractExperience ''selected candidates'' = None"
  "extractScore ''selected candidates'' = None"
  "extractSalary ''selected candidates'' = None"
  "extractSkill ''selected candidates'' = None"
  "extractJobTitle ''selected candidates'' = None"
  by code_simp+

lemma first_read_status:
  assumes "rx_match topCandidatesOfPattern query = None"
    "rx_test topCandidatesPattern (toLowerCase query) = False"
    "rx_test allCandidatesPattern (toLowerCase query) = False"
    "extractEmail query = None" "extractPhone query = None" "extractJobId query = None"
    "shouldUseSemanticSearch query = False" "extractExperience query = None" "extractScore query = None"
    "extractSalary query = None" "extractSkill query = None" "extractJobTitle query = None"
    "status_query (toLowerCase query) (default_limit r) = Some q"
  shows "\<exists>rest. fst (smartSearch e query [] r) = q # rest"
proof -
  have "fst (attempts (strategies e query [] r)) =
      q # fst (then_try ([], found ''candidates_by_status'' Candidates (store e q))
                 (attempts (drop 14 (strategies e query [] r))))"
    unfolding strategies_def Let_def
    using assms
    by (simp add: top_of_strategy_def top_strategy_def all_strategy_def followup_strategy_def
        email_strategy_def phone_strategy_def jobid_strategy_def semantic_strategy_def
        experience_strategy_def score_strategy_def salary_strategy_def skill_strategy_def
        title_strategy_def status_strategy_def then_try_def skip_def split: option.splits)
  then show ?thesis unfolding smartSearch_fst by blast
qed

text \<open>
  Claim C4. In the status strategy, the query "who's in screening" gives the exact-match
  filter on the column \<open>status\<close> with the value "Screening", and the query "selected
  candidates" gives the exact-match filter on the column \<open>interview_result\<close> with the value
  "Selected". With an empty conversation history, this read is the first that
  \<open>smartSearch\<close> issues for either query, whatever the store holds.
\<close>

theorem status_strategy_filter:
  "status_query (toLowerCase ''who's in screening'') d =
     Some \<lparr>q_table = ''hr_job_candidates'', q_filters = [Eq ''status'' ''Screening''], q_order = None, q_limit = Some d\<rparr>
   \<and> status_query (toLowerCase ''selected candidates'') d =
     Some \<lparr>q_table = ''hr_job_candidates'', q_filters = [Eq ''interview_result'' ''Selected''], q_order = None, q_limit = Some d\<rparr>
   \<and> (\<exists>rest. fst (smartSearch e ''who's in screening'' [] r) =
         \<lparr>q_table = ''hr_job_candidates'', q_filters = [Eq ''status'' ''Screening''], q_order = None,
          q_limit = Some (default_limit r)\<rparr> # rest)
   \<and> (\<exists>rest. fst (smartSearch e ''selected candidates'' [] r) =
         \<lparr>q_table = ''hr_job_candidates'', q_filters = [Eq ''interview_result'' ''Selected''], q_order = None,
          q_limit = Some (default_limit r)\<rparr> # rest)"
  using status_query_screening status_query_selected
    first_read_status[OF before_status_screening status_query_screening]
    first_read_status[OF before_status_selected status_query_selected]
  by blast

theorem status_strategy_filter_witness:
  "\<exists>rest. fst (smartSearch failing_env ''who's in screening'' [] None) =
     \<lparr>q_table = ''hr_job_candidates'', q_filters = [Eq ''status'' ''Screening''], q_order = None,
      q_limit = Some 20\<rparr> # rest"
  using status_strategy_filter [where e = failing_env and r = None] by (simp add: default_limit_def)

section \<open>Properties of the chat message handler\<close>

lemma sendMessage_cache:
  "cache (snd (sendMessage e message jobId h st)) = cache st \<or>
   (qtype (classifyQuery message) = Recruitment \<and> h = [] \<and>
    (\<exists>answer. fst (sendMessage e message jobId h st) = Inr (Plain (Answer answer)) \<and>
       cache (snd (sendMessage e message jobId h st)) =
         (cache st)(trim (toLowerCase message) \<mapsto> \<lparr>response = answer, timestamp = time_at_store e\<rparr>)))"
  unfolding sendMessage_def Let_def
  by (simp split: option.splits api_result.splits)

text \<open>
  Claim C10. \<open>sendMessage\<close> changes the response cache only when the message classifies as
  a recruitment query and the conversation history is empty; then it stores the generated
  answer under the lower-cased, trimmed message. A reply to a greeting, help, unclear or
  off-topic message, and a reply to a recruitment query with a non-empty history, leave
  the cache as it was.
\<close>

theorem sendMessage_cache_writes:
  "(qtype (classifyQuery message) \<noteq> Recruitment \<or> h \<noteq> []
      \<longrightarrow> cache (snd (sendMessage e message jobId h st)) = cache st) \<and>
   (cache (snd (sendMessage e message jobId h st)) \<noteq> cache st
      \<longrightarrow> qtype (classifyQuery message) = Recruitment \<and> h = [] \<and>
          (\<exists>answer. fst (sendMessage e message jobId h st) = Inr (Plain (Answer answer)) \<and>
             cache (snd (sendMessage e message jobId h st)) =
               (cache st)(trim (toLowerCase message) \<mapsto> \<lparr>response = answer, timestamp = time_at_store e\<rparr>)))"
  using sendMessage_cache [of e message jobId h st] by blast

theorem sendMessage_cache_writes_witness:
  "qtype (classifyQuery ''hello'') \<noteq> Recruitment \<and>
   cache (snd (sendMessage first_call_env ''hello'' ''all'' [] empty_state)) = cache empty_state \<and>
   cache (snd (sendMessage first_call_env ''show me candidates with Python skills'' ''all''
      [\<lparr>role = ''user'', content = ''hello''\<rparr>] empty_state)) = cache empty_state"
proof -
  have a: "qtype (classifyQuery ''hello'') \<noteq> Recruitment" by code_simp
  have b: "[\<lparr>role = ''user'', content = ''hello''\<rparr>] \<noteq> []" by simp
  from sendMessage_cache_writes [of "''hello''" "[]" first_call_env "''all''" empty_state] a
    sendMessage_cache_writes [of "''show me candidates with Python skills''" "[\<lparr>role = ''user'', content = ''hello''\<rparr>]"
      first_call_env "''all''" empty_state] b
  show ?thesis by blast
qed

text \<open>
  Claim C3, as amended. Take two calls of \<open>sendMessage\<close> with the same message, classified as
  a recruitment query, both with an empty history. Let the message be none that the
  handlers for job descriptions, analytics and similar candidates answer (they return
  before the cache is consulted and store nothing); let the first call find no fresh cache
  entry and let its generation request succeed; and let the cache lookup of the second
  call come less than \<open>CACHE_TTL\<close> after the first call stored its answer. Then the second
  call returns the very answer of the first, and the text-generation interface is
  invoked exactly once across the two calls.
\<close>

theorem sendMessage_cache_idempotent:
  assumes rec: "qtype (classifyQuery message) = Recruitment"
    and njd: "\<not> isJD message (trim (toLowerCase message))"
    and nan: "\<not> isAnalytics (trim (toLowerCase message))"
    and ns1: "similar_reply e1 message (trim (toLowerCase message)) = None"
    and ns2: "similar_reply e2 message (trim (toLowerCase message)) = None"
    and miss: "cache_hit e1 st Recruitment (trim (toLowerCase message)) [] = None"
    and ok: "completion e1 (chat_request e1 message []) = Api_ok answer"
    and ttl: "time_at_lookup e2 - time_at_store e1 < CACHE_TTL"
  shows "fst (sendMessage e1 message j1 [] st) = Inr (Plain (Answer answer)) \<and>
         fst (sendMessage e2 message j2 [] (snd (sendMessage e1 message j1 [] st))) = Inr (Plain (Answer answer)) \<and>
         api_calls (snd (sendMessage e2 message j2 [] (snd (sendMessage e1 message j1 [] st)))) = api_calls st + 1"
proof -
  let ?key = "trim (toLowerCase message)"
  let ?st1 = "st\<lparr>api_calls := api_calls st + 1,
      cache := (cache st)(?key \<mapsto> \<lparr>response = answer, timestamp = time_at_store e1\<rparr>)\<rparr>"
  have first: "sendMessage e1 message j1 [] st = (Inr (Plain (Answer answer)), ?st1)"
    unfolding sendMessage_def Let_def using rec njd nan ns1 miss ok by simp
  have hit: "cache_hit e2 ?st1 Recruitment ?key [] = Some answer"
    unfolding cache_hit_def using ttl by simp
  have second: "sendMessage e2 message j2 [] ?st1 = (Inr (Plain (Answer answer)), ?st1)"
    unfolding sendMessage_def Let_def using rec njd nan ns2 hit by simp
  show ?thesis unfolding first using second by simp
qed

theorem sendMessage_cache_idempotent_witness:
  "fst (sendMessage first_call_env ''show me candidates with Python skills'' ''all'' [] empty_state)
     = Inr (Plain (Answer ''first answer'')) \<and>
   fst (sendMessage second_call_env ''show me candidates with Python skills'' ''all'' []
          (snd (sendMessage first_call_env ''show me candidates with Python skills'' ''all'' [] empty_state)))
     = Inr (Plain (Answer ''first answer'')) \<and>
   api_calls (snd (sendMessage second_call_env ''show me candidates with Python skills'' ''all'' []
          (snd (sendMessage first_call_env ''show me candidates with Python skills'' ''all'' [] empty_state)))) = 1"
proof -
  let ?m = "''show me candidates with Python skills''"
  have rec: "qtype (classifyQuery ?m) = Recruitment" by code_simp
  have njd: "\<not> isJD ?m (trim (toLowerCase ?m))" by code_simp
  have nan: "\<not> isAnalytics (trim (toLowerCase ?m))" by code_simp
  have ns1: "similar_reply first_call_env ?m (trim (toLowerCase ?m)) = None" by code_simp
  have ns2: "similar_reply second_call_env ?m (trim (toLowerCase ?m)) = None" by code_simp
  have miss: "cache_hit first_call_env empty_state Recruitment (trim (toLowerCase ?m)) [] = None"
    by (simp add: cache_hit_def empty_state_def)
  have ok: "completion first_call_env (chat_request first_call_env ?m []) = Api_ok ''first answer''"
    by (simp add: first_call_env_def)
  have ttl: "time_at_lookup second_call_env - time_at_store first_call_env < CACHE_TTL"
    by (simp add: first_call_env_def second_call_env_def CACHE_TTL_def)
  from sendMessage_cache_idempotent [OF rec njd nan ns1 ns2 miss ok ttl, of "''all''" "''all''"]
  show ?thesis by (simp add: empty_state_def)
qed

text \<open>
  Claim C3 as stated fails. "pipeline report" classifies as a recruitment query, but the
  analytics handler answers it before the cache is consulted: two calls within the
  time-to-live window, both with an empty history, invoke the text-generation interface
  twice and return different answers.
\<close>

theorem sendMessage_cache_counterexample:
  "qtype (classifyQuery ''pipeline report'') = Recruitment \<and>
   time_at_lookup second_call_env - time_at_store first_call_env < CACHE_TTL \<and>
   fst (sendMessage first_call_env ''pipeline report'' ''all'' [] empty_state)
     = Inr (Plain (Analytics_report ''first answer'')) \<and>
   fst (sendMessage second_call_env ''pipeline report'' ''all'' []
          (snd (sendMessage first_call_env ''pipeline report'' ''all'' [] empty_state)))
     = Inr (Plain (Analytics_report ''second answer'')) \<and>
   api_calls (snd (sendMessage second_call_env ''pipeline report'' ''all'' []
          (snd (sendMessage first_call_env ''pipeline report'' ''all'' [] empty_state)))) = 2"
  by code_simp

end
